theory Spec2Isabelle
  imports Main "HOL-Library.Word" "HOL-Library.Extended_Nat"
begin

section \<open>Strings\<close>

text \<open>
  A JavaScript string is a sequence of UTF-16 code units. The names and patterns of the
  script that lie outside ASCII (Chinese group names, flag emoji as surrogate pairs) are
  written as the code units themselves; ASCII text is written as an Isabelle string and
  converted by \<open>js\<close>.
\<close>

type_synonym jsstring = "16 word list"

definition js :: "string \<Rightarrow> jsstring" where
  "js s = map of_char s"

section \<open>Regular expressions\<close>

text \<open>
  The patterns of the script use only alternation, literal characters, one escaped dot and
  one character class (\<open>[0-5]\<close>). A pattern is a list of alternatives, an alternative
  a list of atoms. Only the \<open>i\<close> flag is used by the script; the \<open>g\<close> flag is
  modelled too, because it decides whether \<open>test\<close> reads and writes the \<open>lastIndex\<close>
  property of the object, the one piece of state a RegExp carries between calls.
\<close>

datatype atom = Lit "16 word" | Range "16 word" "16 word"

record RegExp =
  alternatives :: "atom list list"
  ignoreCase :: bool
  global :: bool

text \<open>
  Case folding of \<open>/i\<close> without the \<open>u\<close> flag upper-cases a code unit, and never
  maps a code unit from outside ASCII into ASCII. The cased characters of the script's
  patterns are ASCII letters, so folding is written for ASCII letters; on every other
  character of these patterns (CJK ideographs, digits, the dot) a match is equality.
\<close>

definition Canonicalize :: "bool \<Rightarrow> 16 word \<Rightarrow> 16 word" where
  "Canonicalize ic ch = (if ic \<and> 0x61 \<le> ch \<and> ch \<le> 0x7A then ch - 0x20 else ch)"

fun atom_matches :: "bool \<Rightarrow> atom \<Rightarrow> 16 word \<Rightarrow> bool" where
  "atom_matches ic (Lit p) ch = (Canonicalize ic p = Canonicalize ic ch)"
| "atom_matches ic (Range lo hi) ch = (lo \<le> ch \<and> ch \<le> hi)"

text \<open>\<open>match_here\<close>: the alternative matches a prefix of the string.\<close>

fun match_here :: "bool \<Rightarrow> atom list \<Rightarrow> jsstring \<Rightarrow> bool" where
  "match_here ic [] s = True"
| "match_here ic (a # as) [] = False"
| "match_here ic (a # as) (ch # s) = (atom_matches ic a ch \<and> match_here ic as s)"

text \<open>\<open>match_at\<close>: the length of the first alternative, in pattern order, that matches here.\<close>

fun match_at :: "bool \<Rightarrow> atom list list \<Rightarrow> jsstring \<Rightarrow> nat option" where
  "match_at ic [] s = None"
| "match_at ic (alt # alts) s =
     (if match_here ic alt s then Some (length alt) else match_at ic alts s)"

text \<open>
  \<open>search ic alts s i\<close>: \<open>s\<close> is the input from index \<open>i\<close> on; the result is the end
  index of the leftmost match, or \<open>None\<close> when no position matches.
\<close>

fun search :: "bool \<Rightarrow> atom list list \<Rightarrow> jsstring \<Rightarrow> nat \<Rightarrow> nat option" where
  "search ic alts [] i = map_option (\<lambda>n. i + n) (match_at ic alts [])"
| "search ic alts (ch # s) i =
     (case match_at ic alts (ch # s) of
        Some n \<Rightarrow> Some (i + n)
      | None \<Rightarrow> search ic alts s (Suc i))"

text \<open>
  \<open>RegExp.prototype.test\<close>, with the object's \<open>lastIndex\<close> passed in and returned.
  A global RegExp starts at \<open>lastIndex\<close> and stores the end of the match (0 on failure);
  any other RegExp starts at 0 and leaves \<open>lastIndex\<close> alone.
\<close>

definition RegExp_test :: "RegExp \<Rightarrow> jsstring \<Rightarrow> nat \<Rightarrow> bool \<times> nat" where
  "RegExp_test R S lastIndex =
     (let start = (if global R then lastIndex else 0) in
      if start > length S then (False, if global R then 0 else lastIndex)
      else (case search (ignoreCase R) (alternatives R) (drop start S) start of
              None \<Rightarrow> (False, if global R then 0 else lastIndex)
            | Some e \<Rightarrow> (True, if global R then e else lastIndex)))"

text \<open>
  \<open>new RegExp(source)\<close> for a source that is an alternation of literal strings, as
  every pattern of \<open>countriesMeta\<close> is (none holds a metacharacter other than \<open>|\<close>):
  the source is split at each \<open>|\<close>. No flag is given, so the object is not global.
\<close>

fun split_alternatives :: "jsstring \<Rightarrow> jsstring list" where
  "split_alternatives [] = [[]]"
| "split_alternatives (ch # s) =
     (if ch = 0x7C then [] # split_alternatives s
      else (case split_alternatives s of
              a # as \<Rightarrow> (ch # a) # as
            | [] \<Rightarrow> [[ch]]))"

definition RegExp_new :: "jsstring \<Rightarrow> RegExp" where
  "RegExp_new source =
     \<lparr>alternatives = map (map Lit) (split_alternatives source),
      ignoreCase = False, global = False\<rparr>"

section \<open>Module-level constants\<close>

text \<open>\<open>NODE_SUFFIX\<close> and the \<open>PROXY_GROUPS\<close> table.\<close>

definition NODE_SUFFIX :: jsstring where
  "NODE_SUFFIX = [0x8282, 0x70B9]"

definition SELECT :: jsstring where
  "SELECT = [0x9009, 0x62E9, 0x4EE3, 0x7406]"

definition MANUAL :: jsstring where
  "MANUAL = [0x624B, 0x52A8, 0x9009, 0x62E9]"

definition FALLBACK :: jsstring where
  "FALLBACK = [0x6545, 0x969C, 0x8F6C, 0x79FB]"

definition DIRECT :: jsstring where
  "DIRECT = [0x76F4, 0x8FDE]"

definition LANDING :: jsstring where
  "LANDING = [0x843D, 0x5730, 0x8282, 0x70B9]"

definition LOW_COST :: jsstring where
  "LOW_COST = [0x4F4E, 0x500D, 0x7387, 0x8282, 0x70B9]"

text \<open>
  \<open>countriesMeta\<close>: an object literal, so its entries are enumerated in the order they are
  written (no key is an array index). The \<open>icon\<close> URLs are decoration and are left out.
\<close>

record country_meta =
  weight :: "nat option"
  pattern :: jsstring

definition countriesMeta :: "(jsstring \<times> country_meta) list" where
  "countriesMeta =
    [([0x9999, 0x6E2F], \<lparr>weight = Some 10, pattern =
        [0x9999, 0x6E2F] @ js ''|'' @ [0x6E2F] @ js ''|HK|hk|Hong Kong|HongKong|hongkong|''
        @ [0xD83C, 0xDDED, 0xD83C, 0xDDF0]\<rparr>),
     ([0x6FB3, 0x95E8], \<lparr>weight = None, pattern =
        [0x6FB3, 0x95E8] @ js ''|MO|Macau|'' @ [0xD83C, 0xDDF2, 0xD83C, 0xDDF4]\<rparr>),
     ([0x53F0, 0x6E7E], \<lparr>weight = Some 20, pattern =
        [0x53F0] @ js ''|'' @ [0x65B0, 0x5317] @ js ''|'' @ [0x5F70, 0x5316]
        @ js ''|TW|Taiwan|'' @ [0xD83C, 0xDDF9, 0xD83C, 0xDDFC]\<rparr>),
     ([0x65B0, 0x52A0, 0x5761], \<lparr>weight = Some 30, pattern =
        [0x65B0, 0x52A0, 0x5761] @ js ''|'' @ [0x5761] @ js ''|'' @ [0x72EE, 0x57CE]
        @ js ''|SG|Singapore|'' @ [0xD83C, 0xDDF8, 0xD83C, 0xDDEC]\<rparr>),
     ([0x65E5, 0x672C], \<lparr>weight = Some 40, pattern =
        [0x65E5, 0x672C] @ js ''|'' @ [0x5DDD, 0x65E5] @ js ''|'' @ [0x4E1C, 0x4EAC] @ js ''|''
        @ [0x5927, 0x962A] @ js ''|'' @ [0x6CC9, 0x65E5] @ js ''|'' @ [0x57FC, 0x7389] @ js ''|''
        @ [0x6CAA, 0x65E5] @ js ''|'' @ [0x6DF1, 0x65E5] @ js ''|JP|Japan|''
        @ [0xD83C, 0xDDEF, 0xD83C, 0xDDF5]\<rparr>),
     ([0x97E9, 0x56FD], \<lparr>weight = None, pattern =
        js ''KR|Korea|KOR|'' @ [0x9996, 0x5C14] @ js ''|'' @ [0x97E9] @ js ''|'' @ [0x97D3]
        @ js ''|'' @ [0xD83C, 0xDDF0, 0xD83C, 0xDDF7]\<rparr>),
     ([0x7F8E, 0x56FD], \<lparr>weight = Some 50, pattern =
        [0x7F8E, 0x56FD] @ js ''|'' @ [0x7F8E] @ js ''|US|United States|''
        @ [0xD83C, 0xDDFA, 0xD83C, 0xDDF8]\<rparr>),
     ([0x52A0, 0x62FF, 0x5927], \<lparr>weight = None, pattern =
        [0x52A0, 0x62FF, 0x5927] @ js ''|Canada|CA|'' @ [0xD83C, 0xDDE8, 0xD83C, 0xDDE6]\<rparr>),
     ([0x82F1, 0x56FD], \<lparr>weight = Some 60, pattern =
        [0x82F1, 0x56FD] @ js ''|United Kingdom|UK|'' @ [0x4F26, 0x6566] @ js ''|London|''
        @ [0xD83C, 0xDDEC, 0xD83C, 0xDDE7]\<rparr>),
     ([0x6FB3, 0x5927, 0x5229, 0x4E9A], \<lparr>weight = None, pattern =
        [0x6FB3, 0x6D32] @ js ''|'' @ [0x6FB3, 0x5927, 0x5229, 0x4E9A] @ js ''|AU|Australia|''
        @ [0xD83C, 0xDDE6, 0xD83C, 0xDDFA]\<rparr>),
     ([0x5FB7, 0x56FD], \<lparr>weight = Some 70, pattern =
        [0x5FB7, 0x56FD] @ js ''|'' @ [0x5FB7] @ js ''|DE|Germany|''
        @ [0xD83C, 0xDDE9, 0xD83C, 0xDDEA]\<rparr>),
     ([0x6CD5, 0x56FD], \<lparr>weight = Some 80, pattern =
        [0x6CD5, 0x56FD] @ js ''|'' @ [0x6CD5] @ js ''|FR|France|''
        @ [0xD83C, 0xDDEB, 0xD83C, 0xDDF7]\<rparr>),
     ([0x4FC4, 0x7F57, 0x65AF], \<lparr>weight = None, pattern =
        [0x4FC4, 0x7F57, 0x65AF] @ js ''|'' @ [0x4FC4] @ js ''|RU|Russia|''
        @ [0xD83C, 0xDDF7, 0xD83C, 0xDDFA]\<rparr>),
     ([0x6CF0, 0x56FD], \<lparr>weight = None, pattern =
        [0x6CF0, 0x56FD] @ js ''|'' @ [0x6CF0] @ js ''|TH|Thailand|''
        @ [0xD83C, 0xDDF9, 0xD83C, 0xDDED]\<rparr>),
     ([0x5370, 0x5EA6], \<lparr>weight = None, pattern =
        [0x5370, 0x5EA6] @ js ''|IN|India|'' @ [0xD83C, 0xDDEE, 0xD83C, 0xDDF3]\<rparr>),
     ([0x9A6C, 0x6765, 0x897F, 0x4E9A], \<lparr>weight = None, pattern =
        [0x9A6C, 0x6765, 0x897F, 0x4E9A] @ js ''|'' @ [0x9A6C, 0x6765] @ js ''|MY|Malaysia|''
        @ [0xD83C, 0xDDF2, 0xD83C, 0xDDFE]\<rparr>)]"

text \<open>
  \<open>LOW_COST_REGEX = /0\.[0-5]|...|.../i\<close> and \<open>LANDING_REGEX = /...|Starlink|.../i\<close>:
  regular-expression literals without the \<open>g\<close> flag.
\<close>

definition LOW_COST_REGEX :: RegExp where
  "LOW_COST_REGEX =
     \<lparr>alternatives =
        [[Lit 0x30, Lit 0x2E, Range 0x30 0x35],
         map Lit [0x4F4E, 0x500D, 0x7387],
         map Lit [0x7701, 0x6D41],
         map Lit [0x5927, 0x6D41, 0x91CF],
         map Lit [0x5B9E, 0x9A8C, 0x6027]],
      ignoreCase = True, global = False\<rparr>"

definition LANDING_REGEX :: RegExp where
  "LANDING_REGEX =
     \<lparr>alternatives =
        [map Lit [0x5BB6, 0x5BBD],
         map Lit [0x5BB6, 0x5EAD],
         map Lit [0x5BB6, 0x5EAD, 0x5BBD, 0x5E26],
         map Lit [0x5546, 0x5BBD],
         map Lit [0x5546, 0x4E1A, 0x5BBD, 0x5E26],
         map Lit [0x661F, 0x94FE],
         map Lit (js ''Starlink''),
         map Lit [0x843D, 0x5730]],
      ignoreCase = True, global = False\<rparr>"

definition LANDING_PATTERN :: jsstring where
  "LANDING_PATTERN =
     js ''(?i)'' @ [0x5BB6, 0x5BBD] @ js ''|'' @ [0x5BB6, 0x5EAD] @ js ''|''
     @ [0x5BB6, 0x5EAD, 0x5BBD, 0x5E26] @ js ''|'' @ [0x5546, 0x5BBD] @ js ''|''
     @ [0x5546, 0x4E1A, 0x5BBD, 0x5E26] @ js ''|'' @ [0x661F, 0x94FE] @ js ''|Starlink|''
     @ [0x843D, 0x5730]"

section \<open>Input, flags and module state\<close>

text \<open>
  A proxy record: only \<open>name\<close> is read; every other field passes through untouched.
  \<open>config.proxies\<close> may be absent (\<open>None\<close>).
\<close>

record proxy =
  name :: jsstring

record config =
  proxies :: "proxy list option"

text \<open>
  The feature flags are computed once from \<open>$arguments\<close> when the module is loaded and are
  constants afterwards. \<open>countryThreshold\<close> comes from \<open>parseInt\<close> and may be negative.
\<close>

record flags =
  loadBalance :: bool
  landing :: bool
  ipv6Enabled :: bool
  fullConfig :: bool
  keepAliveEnabled :: bool
  fakeIPEnabled :: bool
  quicEnabled :: bool
  regexFilter :: bool
  countryThreshold :: int

text \<open>
  What the module keeps between two calls of \<open>main\<close> and a call can write: the
  \<open>lastIndex\<close> properties of the two module-level RegExp objects.
\<close>

record module_state =
  LOW_COST_lastIndex :: nat
  LANDING_lastIndex :: nat

section \<open>Classification\<close>

text \<open>\<open>(config.proxies || [])\<close>\<close>

definition proxies_or_empty :: "config \<Rightarrow> proxy list" where
  "proxies_or_empty cfg = (case config.proxies cfg of None \<Rightarrow> [] | Some ps \<Rightarrow> ps)"

text \<open>\<open>array.filter(proxy => R.test(proxy.name))\<close>, threading \<open>R.lastIndex\<close>.\<close>

fun filter_test :: "RegExp \<Rightarrow> proxy list \<Rightarrow> nat \<Rightarrow> proxy list \<times> nat" where
  "filter_test R [] li = ([], li)"
| "filter_test R (p # ps) li =
     (case RegExp_test R (proxy.name p) li of
        (matched, li1) \<Rightarrow>
          (case filter_test R ps li1 of
             (rest, li2) \<Rightarrow> (if matched then p # rest else rest, li2)))"

definition parseLowCost :: "config \<Rightarrow> module_state \<Rightarrow> jsstring list \<times> module_state" where
  "parseLowCost cfg st =
     (case filter_test LOW_COST_REGEX (proxies_or_empty cfg) (LOW_COST_lastIndex st) of
        (ps, li) \<Rightarrow> (map proxy.name ps, st\<lparr>LOW_COST_lastIndex := li\<rparr>))"

definition parseLandingNodes :: "config \<Rightarrow> module_state \<Rightarrow> jsstring list \<times> module_state" where
  "parseLandingNodes cfg st =
     (case filter_test LANDING_REGEX (proxies_or_empty cfg) (LANDING_lastIndex st) of
        (ps, li) \<Rightarrow> (map proxy.name ps, st\<lparr>LANDING_lastIndex := li\<rparr>))"

text \<open>\<open>meta.pattern.replace(/^\(\?i\)/, '')\<close>: a leading \<open>(?i)\<close> is removed.\<close>

definition strip_ci_prefix :: "jsstring \<Rightarrow> jsstring" where
  "strip_ci_prefix source =
     (if take 4 source = js ''(?i)'' then drop 4 source else source)"

text \<open>
  \<open>compiledRegex\<close>: one RegExp per entry of \<open>countriesMeta\<close>, in declaration order. These
  objects are local to one call and are created without flags; such an object never reads
  or writes its \<open>lastIndex\<close> (lemma \<open>RegExp_test_not_global\<close>), so their tests start
  from \<open>lastIndex = 0\<close> and the property is not threaded.
\<close>

definition compiledRegex :: "(jsstring \<times> RegExp) list" where
  "compiledRegex =
     map (\<lambda>(country, meta). (country, RegExp_new (strip_ci_prefix (pattern meta))))
       countriesMeta"

text \<open>The inner loop: the country of the first compiled pattern that matches the name.\<close>

fun first_match :: "(jsstring \<times> RegExp) list \<Rightarrow> jsstring \<Rightarrow> jsstring option" where
  "first_match [] nm = None"
| "first_match ((country, regex) # rest) nm =
     (if fst (RegExp_test regex nm 0) then Some country else first_match rest nm)"

text \<open>
  \<open>countryNodes\<close> is an object without prototype, filled key by key; \<open>Object.entries\<close>
  enumerates it in the order the keys were first written. It is an association list kept
  in that order: \<open>push_node\<close> appends to the bucket of an existing key, or adds the key last.
\<close>

fun push_node ::
  "jsstring \<Rightarrow> jsstring \<Rightarrow> (jsstring \<times> jsstring list) list \<Rightarrow> (jsstring \<times> jsstring list) list"
where
  "push_node c nm [] = [(c, [nm])]"
| "push_node c nm ((c', ns) # rest) =
     (if c' = c then (c', ns @ [nm]) # rest else (c', ns) # push_node c nm rest)"

text \<open>
  The loop over the proxies. \<open>proxy.name || ''\<close> is the name itself for a string.
  A landing or low-cost name is skipped (\<open>continue\<close>) before any country is tried.
\<close>

fun classify_loop ::
  "proxy list \<Rightarrow> (jsstring \<times> jsstring list) list \<Rightarrow> module_state
   \<Rightarrow> (jsstring \<times> jsstring list) list \<times> module_state"
where
  "classify_loop [] countryNodes st = (countryNodes, st)"
| "classify_loop (p # ps) countryNodes st =
     (case RegExp_test LANDING_REGEX (proxy.name p) (LANDING_lastIndex st) of
        (isLanding, li1) \<Rightarrow>
          if isLanding then classify_loop ps countryNodes (st\<lparr>LANDING_lastIndex := li1\<rparr>)
          else
            (case RegExp_test LOW_COST_REGEX (proxy.name p)
                    (LOW_COST_lastIndex (st\<lparr>LANDING_lastIndex := li1\<rparr>)) of
               (isLowCost, li2) \<Rightarrow>
                 if isLowCost then
                   classify_loop ps countryNodes
                     (st\<lparr>LANDING_lastIndex := li1, LOW_COST_lastIndex := li2\<rparr>)
                 else
                   (case first_match compiledRegex (proxy.name p) of
                      None \<Rightarrow>
                        classify_loop ps countryNodes
                          (st\<lparr>LANDING_lastIndex := li1, LOW_COST_lastIndex := li2\<rparr>)
                    | Some c \<Rightarrow>
                        classify_loop ps (push_node c (proxy.name p) countryNodes)
                          (st\<lparr>LANDING_lastIndex := li1, LOW_COST_lastIndex := li2\<rparr>))))"

record country_info =
  country :: jsstring
  nodes :: "jsstring list"

definition parseCountries :: "config \<Rightarrow> module_state \<Rightarrow> country_info list \<times> module_state" where
  "parseCountries cfg st =
     (case classify_loop (proxies_or_empty cfg) [] st of
        (countryNodes, st') \<Rightarrow>
          (map (\<lambda>(c, ns). \<lparr>country = c, nodes = ns\<rparr>) countryNodes, st'))"

section \<open>Country group names\<close>

text \<open>
  \<open>countriesMeta[c]?.weight ?? Infinity\<close>. The comparator \<open>wa - wb\<close> is negative, positive
  or, for equal weights, zero; for two unset weights it is \<open>NaN\<close>, which \<open>sort\<close> reads as
  zero. So the comparison is the order of \<open>enat\<close> on this key.
\<close>

definition weight_of :: "jsstring \<Rightarrow> enat" where
  "weight_of c =
     (case map_of countriesMeta c of
        None \<Rightarrow> \<infinity>
      | Some meta \<Rightarrow> (case weight meta of None \<Rightarrow> \<infinity> | Some w \<Rightarrow> enat w))"

text \<open>
  \<open>Array.prototype.sort\<close> is stable; with a consistent comparator its result is the
  stable sort by the key, which \<open>sort_key\<close> (insertion sort) computes.
\<close>

definition getCountryGroupNames :: "country_info list \<Rightarrow> int \<Rightarrow> jsstring list" where
  "getCountryGroupNames countryInfo minCount =
     (let filtered = filter (\<lambda>item. int (length (nodes item)) \<ge> minCount) countryInfo;
          ordered = sort_key (\<lambda>item. weight_of (country item)) filtered
      in map (\<lambda>item. country item @ NODE_SUFFIX) ordered)"

text \<open>\<open>name.replace(/NODE_SUFFIX$/, "")\<close>: the suffix is removed when the name ends in it.\<close>

definition strip_suffix :: "jsstring \<Rightarrow> jsstring" where
  "strip_suffix nm =
     (if length NODE_SUFFIX \<le> length nm
         \<and> drop (length nm - length NODE_SUFFIX) nm = NODE_SUFFIX
      then take (length nm - length NODE_SUFFIX) nm else nm)"

definition stripNodeSuffix :: "jsstring list \<Rightarrow> jsstring list" where
  "stripNodeSuffix groupNames = map strip_suffix groupNames"

section \<open>Candidate lists\<close>

text \<open>
  \<open>buildList(...elements)\<close> is \<open>elements.flat().filter(Boolean)\<close>. An argument is a string,
  an array of strings, or the \<open>false\<close> left by \<open>condition && value\<close>. \<open>filter(Boolean)\<close>
  drops \<open>false\<close> and the empty string.
\<close>

datatype element = Str jsstring | Arr "jsstring list" | JsFalse

definition guarded :: "bool \<Rightarrow> jsstring \<Rightarrow> element" where
  "guarded condition v = (if condition then Str v else JsFalse)"

fun flat :: "element \<Rightarrow> jsstring option list" where
  "flat (Str s) = [Some s]"
| "flat (Arr xs) = map Some xs"
| "flat JsFalse = [None]"

definition truthy :: "jsstring option \<Rightarrow> jsstring option" where
  "truthy v = (case v of None \<Rightarrow> None | Some s \<Rightarrow> if s = [] then None else Some s)"

definition buildList :: "element list \<Rightarrow> jsstring list" where
  "buildList elements = List.map_filter truthy (concat (map flat elements))"

record base_lists =
  defaultProxies :: "jsstring list"
  defaultProxiesDirect :: "jsstring list"
  defaultSelector :: "jsstring list"
  defaultFallback :: "jsstring list"

text \<open>
  \<open>buildBaseLists({ landing, lowCostNodes, countryGroupNames })\<close>; \<open>regexFilter\<close> is read
  from the module's flags.
\<close>

definition buildBaseLists ::
  "flags \<Rightarrow> bool \<Rightarrow> jsstring list \<Rightarrow> jsstring list \<Rightarrow> base_lists" where
  "buildBaseLists fl landing' lowCostNodes countryGroupNames =
     (let lowCost = (length lowCostNodes > 0 \<or> regexFilter fl) in
      \<lparr>defaultProxies =
         buildList [Str SELECT, Arr countryGroupNames, guarded lowCost LOW_COST,
                    Str MANUAL, Str DIRECT],
       defaultProxiesDirect =
         buildList [Str DIRECT, Arr countryGroupNames, guarded lowCost LOW_COST,
                    Str SELECT, Str MANUAL],
       defaultSelector =
         buildList [Str FALLBACK, guarded landing' LANDING, Arr countryGroupNames,
                    guarded lowCost LOW_COST, Str MANUAL, Str (js ''DIRECT'')],
       defaultFallback =
         buildList [guarded landing' LANDING, Arr countryGroupNames,
                    guarded lowCost LOW_COST, Str MANUAL, Str (js ''DIRECT'')]\<rparr>)"

section \<open>Policy groups\<close>

datatype group_type = select | url_test | load_balance | fallback

text \<open>
  A group object. A key the object literal does not write is \<open>None\<close>. The \<open>icon\<close> URL is
  decoration and is left out.
\<close>

record proxy_group =
  name :: jsstring
  type :: group_type
  proxies :: "jsstring list option"
  include_all :: "bool option"
  filter_opt :: "jsstring option"
  exclude_filter :: "jsstring option"
  url :: "jsstring option"
  interval :: "nat option"
  tolerance :: "nat option"
  lazy :: "bool option"

text \<open>The object literal \<open>{ "name": n, "type": t }\<close>; the other keys are added by update.\<close>

definition group :: "jsstring \<Rightarrow> group_type \<Rightarrow> proxy_group" where
  "group n t =
     \<lparr>name = n, type = t, proxies = None, include_all = None, filter_opt = None,
      exclude_filter = None, url = None, interval = None, tolerance = None, lazy = None\<rparr>"

definition health_check_url :: jsstring where
  "health_check_url = js ''https://cp.cloudflare.com/generate_204''"

definition baseExcludeFilter :: jsstring where
  "baseExcludeFilter =
     js ''0'' @ [0x005C] @ js ''.[0-5]|'' @ [0x4F4E, 0x500D, 0x7387] @ js ''|''
     @ [0x7701, 0x6D41] @ js ''|'' @ [0x5927, 0x6D41, 0x91CF] @ js ''|''
     @ [0x5B9E, 0x9A8C, 0x6027]"

text \<open>
  \<open>nodesByCountry = Object.fromEntries(countryInfo.map(item => [item.country, item.nodes]))\<close>:
  a later entry of the same key would replace an earlier one.
\<close>

definition nodesByCountry :: "country_info list \<Rightarrow> jsstring \<Rightarrow> jsstring list option" where
  "nodesByCountry countryInfo =
     map_of (rev (map (\<lambda>item. (country item, nodes item)) countryInfo))"

text \<open>The body of the loop of \<open>buildCountryProxyGroups\<close> for a country that has metadata.\<close>

definition country_group ::
  "bool \<Rightarrow> bool \<Rightarrow> bool \<Rightarrow> country_info list \<Rightarrow> jsstring \<Rightarrow> country_meta \<Rightarrow> proxy_group"
where
  "country_group landing' loadBalance' regexFilter' countryInfo c meta =
     (let groupType = (if loadBalance' then load_balance else url_test);
          groupConfig =
            (if \<not> regexFilter' then
               (group (c @ NODE_SUFFIX) groupType)
                 \<lparr>proxies :=
                    Some (case nodesByCountry countryInfo c of None \<Rightarrow> [] | Some ns \<Rightarrow> ns)\<rparr>
             else
               (group (c @ NODE_SUFFIX) groupType)
                 \<lparr>include_all := Some True,
                  filter_opt := Some (pattern meta),
                  exclude_filter :=
                    Some (if landing' then LANDING_PATTERN @ js ''|'' @ baseExcludeFilter
                          else baseExcludeFilter)\<rparr>)
      in if \<not> loadBalance' then
           groupConfig\<lparr>url := Some health_check_url, interval := Some 60,
                       tolerance := Some 20, lazy := Some False\<rparr>
         else groupConfig)"

text \<open>
  \<open>buildCountryProxyGroups({ countries, landing, loadBalance, regexFilter, countryInfo })\<close>:
  a country without an entry in \<open>countriesMeta\<close> is skipped (\<open>continue\<close>).
\<close>

definition buildCountryProxyGroups ::
  "jsstring list \<Rightarrow> bool \<Rightarrow> bool \<Rightarrow> bool \<Rightarrow> country_info list \<Rightarrow> proxy_group list" where
  "buildCountryProxyGroups countries landing' loadBalance' regexFilter' countryInfo =
     concat (map (\<lambda>c. case map_of countriesMeta c of
                         None \<Rightarrow> []
                       | Some meta \<Rightarrow>
                           [country_group landing' loadBalance' regexFilter' countryInfo c meta])
                 countries)"

text \<open>The \<open>select\<close> group \<open>{ "name": n, "type": "select", "proxies": ps }\<close>.\<close>

definition select_group :: "jsstring \<Rightarrow> jsstring list \<Rightarrow> proxy_group" where
  "select_group n ps = (group n select)\<lparr>proxies := Some ps\<rparr>"

text \<open>
  \<open>buildProxyGroups\<close>: an array literal whose optional entries are \<open>null\<close> when their
  condition fails, followed by \<open>...countryProxyGroups\<close>, then \<open>.filter(Boolean)\<close>.
  \<open>regexFilter\<close> is read from the module's flags; the other values are parameters.
\<close>

definition buildProxyGroups ::
  "flags \<Rightarrow> bool \<Rightarrow> jsstring list \<Rightarrow> proxy_group list \<Rightarrow> jsstring list \<Rightarrow> jsstring list
   \<Rightarrow> jsstring list \<Rightarrow> jsstring list \<Rightarrow> jsstring list \<Rightarrow> jsstring list \<Rightarrow> proxy_group list"
where
  "buildProxyGroups fl landing' countries countryProxyGroups lowCostNodes landingNodes
      defaultProxies' defaultProxiesDirect' defaultSelector' defaultFallback' =
     (let hasTW = ([0x53F0, 0x6E7E] \<in> set countries);
          hasHK = ([0x9999, 0x6E2F] \<in> set countries);
          hasUS = ([0x7F8E, 0x56FD] \<in> set countries);
          frontProxySelector =
            (if landing'
             then filter (\<lambda>n. n \<noteq> LANDING \<and> n \<noteq> FALLBACK) defaultSelector'
             else [])
      in List.map_filter id
        ([Some (select_group SELECT defaultSelector'),
          Some ((group MANUAL select)\<lparr>include_all := Some True\<rparr>),
          (if landing' then
             Some (if regexFilter fl
                   then (group [0x524D, 0x7F6E, 0x4EE3, 0x7406] select)
                          \<lparr>include_all := Some True, exclude_filter := Some LANDING_PATTERN,
                           proxies := Some frontProxySelector\<rparr>
                   else (group [0x524D, 0x7F6E, 0x4EE3, 0x7406] select)
                          \<lparr>proxies := Some frontProxySelector\<rparr>)
           else None),
          (if landing' then
             Some (if regexFilter fl
                   then (group LANDING select)
                          \<lparr>include_all := Some True, filter_opt := Some LANDING_PATTERN\<rparr>
                   else (group LANDING select)\<lparr>proxies := Some landingNodes\<rparr>)
           else None),
          Some ((group FALLBACK fallback)
                  \<lparr>url := Some health_check_url, proxies := Some defaultFallback',
                   interval := Some 180, tolerance := Some 20, lazy := Some False\<rparr>),
          Some (select_group [0x9759, 0x6001, 0x8D44, 0x6E90] defaultProxies'),
          Some (select_group (js ''AI'') defaultProxies'),
          Some (select_group (js ''Crypto'') defaultProxies'),
          Some (select_group (js ''Google'') defaultProxies'),
          Some (select_group (js ''Microsoft'') defaultProxies'),
          Some (select_group (js ''YouTube'') defaultProxies'),
          Some (select_group (js ''Bilibili'')
                  (if hasTW \<and> hasHK
                   then [DIRECT, [0x53F0, 0x6E7E, 0x8282, 0x70B9], [0x9999, 0x6E2F, 0x8282, 0x70B9]]
                   else defaultProxiesDirect')),
          Some (select_group (js ''Bahamut'')
                  (if hasTW
                   then [[0x53F0, 0x6E7E, 0x8282, 0x70B9], SELECT, MANUAL, DIRECT]
                   else defaultProxies')),
          Some (select_group (js ''Netflix'') defaultProxies'),
          Some (select_group (js ''TikTok'') defaultProxies'),
          Some (select_group (js ''Spotify'') defaultProxies'),
          Some (select_group (js ''E-Hentai'') defaultProxies'),
          Some (select_group (js ''Telegram'') defaultProxies'),
          Some (select_group (js ''Truth Social'')
                  (if hasUS
                   then [[0x7F8E, 0x56FD, 0x8282, 0x70B9], SELECT, MANUAL]
                   else defaultProxies')),
          Some (select_group (js ''OneDrive'') defaultProxies'),
          Some (select_group (js ''PikPak'') defaultProxies'),
          Some (select_group (js ''SSH(22'' @ [0x7AEF, 0x53E3] @ js '')'') defaultProxies'),
          Some (select_group [0x641C, 0x72D7, 0x8F93, 0x5165, 0x6CD5] [DIRECT, js ''REJECT'']),
          Some (select_group DIRECT [js ''DIRECT'', SELECT]),
          Some (select_group [0x5E7F, 0x544A, 0x62E6, 0x622A]
                  [js ''REJECT'', js ''REJECT-DROP'', DIRECT]),
          (if length lowCostNodes > 0 \<or> regexFilter fl then
             Some (if \<not> regexFilter fl
                   then (group LOW_COST url_test)
                          \<lparr>url := Some health_check_url, proxies := Some lowCostNodes\<rparr>
                   else (group LOW_COST url_test)
                          \<lparr>url := Some health_check_url, include_all := Some True,
                           filter_opt := Some (js ''(?i)'' @ baseExcludeFilter)\<rparr>)
           else None)]
         @ map Some countryProxyGroups))"

section \<open>The transform\<close>

text \<open>
  The result of \<open>main\<close>: the node list as it came in, and \<open>proxy-groups\<close>. The other
  keys of the result (\<open>rule-providers\<close>, \<open>rules\<close>, \<open>sniffer\<close>, \<open>dns\<close>, \<open>geox-url\<close> and
  the keys of the full configuration) are static tables chosen by a flag and are left out.
\<close>

record result_config =
  proxies :: "proxy list option"
  proxy_groups :: "proxy_group list"

definition main :: "flags \<Rightarrow> config \<Rightarrow> module_state \<Rightarrow> result_config \<times> module_state" where
  "main fl cfg st =
     (let resultConfig = \<lparr>config.proxies = config.proxies cfg\<rparr> in
      case parseCountries resultConfig st of (countryInfo, st1) \<Rightarrow>
      case parseLowCost resultConfig st1 of (lowCostNodes, st2) \<Rightarrow>
      case (if landing fl then parseLandingNodes resultConfig st2 else ([], st2)) of
        (landingNodes, st3) \<Rightarrow>
      let countryGroupNames = getCountryGroupNames countryInfo (countryThreshold fl);
          countries = stripNodeSuffix countryGroupNames;
          base = buildBaseLists fl (landing fl) lowCostNodes countryGroupNames;
          countryProxyGroups =
            buildCountryProxyGroups countries (landing fl) (loadBalance fl) (regexFilter fl)
              countryInfo;
          proxyGroups =
            buildProxyGroups fl (landing fl) countries countryProxyGroups lowCostNodes
              landingNodes (defaultProxies base) (defaultProxiesDirect base)
              (defaultSelector base) (defaultFallback base);
          globalProxies = map proxy_group.name proxyGroups
      in (\<lparr>result_config.proxies = config.proxies resultConfig,
           proxy_groups =
             proxyGroups
             @ [(group (js ''GLOBAL'') select)
                  \<lparr>include_all := Some True, proxy_group.proxies := Some globalProxies\<rparr>]\<rparr>,
          st3))"

section \<open>Vocabulary of the properties\<close>

text \<open>\<open>matches R S\<close>: the result of \<open>R.test(S)\<close> for an object whose \<open>lastIndex\<close> is 0.\<close>

definition matches :: "RegExp \<Rightarrow> jsstring \<Rightarrow> bool" where
  "matches R S = fst (RegExp_test R S 0)"

text \<open>
  The country a name is classified into by one turn of the loop of \<open>parseCountries\<close>,
  and the loop itself without the module state.
\<close>

definition classify :: "jsstring \<Rightarrow> jsstring option" where
  "classify nm =
     (if matches LANDING_REGEX nm then None
      else if matches LOW_COST_REGEX nm then None
      else first_match compiledRegex nm)"

fun collect ::
  "jsstring list \<Rightarrow> (jsstring \<times> jsstring list) list \<Rightarrow> (jsstring \<times> jsstring list) list"
where
  "collect [] countryNodes = countryNodes"
| "collect (nm # nms) countryNodes =
     collect nms
       (case classify nm of None \<Rightarrow> countryNodes | Some c \<Rightarrow> push_node c nm countryNodes)"

definition node_names :: "config \<Rightarrow> jsstring list" where
  "node_names cfg = map proxy.name (proxies_or_empty cfg)"

definition countryInfo_of :: "config \<Rightarrow> country_info list" where
  "countryInfo_of cfg =
     map (\<lambda>(c, ns). \<lparr>country = c, nodes = ns\<rparr>) (collect (node_names cfg) [])"

text \<open>The distinct elements of a list, in the order of their first occurrence.\<close>

fun add_new :: "'a list \<Rightarrow> 'a list \<Rightarrow> 'a list" where
  "add_new acc [] = acc"
| "add_new acc (x # xs) = add_new (if x \<in> set acc then acc else acc @ [x]) xs"

definition first_seen :: "'a list \<Rightarrow> 'a list" where
  "first_seen xs = add_new [] xs"

text \<open>The group sequence \<open>main\<close> returns under the key \<open>proxy-groups\<close>.\<close>

definition final_groups :: "flags \<Rightarrow> config \<Rightarrow> module_state \<Rightarrow> proxy_group list" where
  "final_groups fl cfg st = proxy_groups (fst (main fl cfg st))"

text \<open>
  The names of the groups \<open>buildProxyGroups\<close> writes itself, in the order it writes them:
  the groups of the tracked services (first those bound to a shared candidate list, then
  the three with a list of their own), and around them the functional groups.
\<close>

definition FRONT :: jsstring where
  "FRONT = [0x524D, 0x7F6E, 0x4EE3, 0x7406]"

definition proxied_service_names :: "jsstring list" where
  "proxied_service_names =
     [[0x9759, 0x6001, 0x8D44, 0x6E90], js ''AI'', js ''Crypto'', js ''Google'',
      js ''Microsoft'', js ''YouTube'', js ''Bilibili'', js ''Bahamut'', js ''Netflix'',
      js ''TikTok'', js ''Spotify'', js ''E-Hentai'', js ''Telegram'', js ''Truth Social'',
      js ''OneDrive'', js ''PikPak'', js ''SSH(22'' @ [0x7AEF, 0x53E3] @ js '')'']"

definition service_group_names :: "jsstring list" where
  "service_group_names =
     proxied_service_names
     @ [[0x641C, 0x72D7, 0x8F93, 0x5165, 0x6CD5], DIRECT, [0x5E7F, 0x544A, 0x62E6, 0x622A]]"

definition functional_group_names :: "bool \<Rightarrow> bool \<Rightarrow> jsstring list" where
  "functional_group_names landing' lowCost =
     [SELECT, MANUAL] @ (if landing' then [FRONT, LANDING] else []) @ [FALLBACK]
     @ service_group_names @ (if lowCost then [LOW_COST] else [])"

definition functional_group_types :: "bool \<Rightarrow> bool \<Rightarrow> (jsstring \<times> group_type) list" where
  "functional_group_types landing' lowCost =
     [(SELECT, select), (MANUAL, select)]
     @ (if landing' then [(FRONT, select), (LANDING, select)] else [])
     @ [(FALLBACK, fallback)] @ map (\<lambda>n. (n, select)) service_group_names
     @ (if lowCost then [(LOW_COST, url_test)] else [])"

text \<open>
  Every name the script itself gives to a group or writes into a candidate list, apart
  from the country groups.
\<close>

definition reserved_names :: "jsstring list" where
  "reserved_names =
     [SELECT, MANUAL, FRONT, LANDING, FALLBACK] @ service_group_names
     @ [LOW_COST, js ''GLOBAL'', js ''DIRECT'', js ''REJECT'', js ''REJECT-DROP'']"

text \<open>The group name of every country of \<open>countriesMeta\<close>, in declaration order.\<close>

definition country_group_names :: "jsstring list" where
  "country_group_names = map (\<lambda>(c, meta). c @ NODE_SUFFIX) countriesMeta"

text \<open>The test of one country's pattern, as \<open>parseCountries\<close> compiles it.\<close>

definition pattern_matches :: "country_meta \<Rightarrow> jsstring \<Rightarrow> bool" where
  "pattern_matches meta nm = matches (RegExp_new (strip_ci_prefix (pattern meta))) nm"

text \<open>
  The countries \<open>getCountryGroupNames\<close> keeps, in the order it gives them; the country
  groups of the final sequence, picked out by their names; the countries they stand for.
\<close>

definition surfaced_countries :: "country_info list \<Rightarrow> int \<Rightarrow> jsstring list" where
  "surfaced_countries countryInfo minCount =
     map country
       (sort_key (\<lambda>item. weight_of (country item))
          (filter (\<lambda>item. int (length (nodes item)) \<ge> minCount) countryInfo))"

definition emitted_country_groups :: "flags \<Rightarrow> config \<Rightarrow> module_state \<Rightarrow> jsstring list" where
  "emitted_country_groups fl cfg st =
     filter (\<lambda>n. n \<in> set country_group_names) (map proxy_group.name (final_groups fl cfg st))"

definition emitted_countries :: "flags \<Rightarrow> config \<Rightarrow> module_state \<Rightarrow> jsstring list" where
  "emitted_countries fl cfg st = map strip_suffix (emitted_country_groups fl cfg st)"

text \<open>
  The size of a country's bucket: the number of node names \<open>parseCountries\<close> returns
  under that country, 0 when it returns no entry for it.
\<close>

definition bucket_size :: "config \<Rightarrow> module_state \<Rightarrow> jsstring \<Rightarrow> nat" where
  "bucket_size cfg st c =
     length (concat (map nodes (filter (\<lambda>b. country b = c) (fst (parseCountries cfg st)))))"

text \<open>
  A group is free of self-reference, up to the names \<open>nms\<close>, when its candidate
  list holds its own name only if that name is one of \<open>nms\<close>.
\<close>

definition self_free :: "jsstring list \<Rightarrow> proxy_group \<Rightarrow> bool" where
  "self_free nms g =
     (case proxy_group.proxies g of
        None \<Rightarrow> True
      | Some ps \<Rightarrow> proxy_group.name g \<in> set ps \<longrightarrow> proxy_group.name g \<in> set nms)"

text \<open>
  The names of the groups whose candidate list, where they have one, is put together from
  group names and built-in policies (the selector, the manual, front-proxy and fallback
  groups, the service groups and \<open>GLOBAL\<close>), and the names of the groups whose
  candidate list enumerates node names (the landing, low-cost and country groups).
\<close>

definition fixed_list_group_names :: "jsstring list" where
  "fixed_list_group_names =
     [SELECT, MANUAL, FRONT, FALLBACK] @ service_group_names @ [js ''GLOBAL'']"

definition node_list_group_names :: "jsstring list" where
  "node_list_group_names = [LANDING, LOW_COST] @ country_group_names"

text \<open>
  Sample inputs: the state of a freshly loaded module, the default flags, and the
  configuration whose nodes carry the given names.
\<close>

definition fresh_state :: module_state where
  "fresh_state = \<lparr>LOW_COST_lastIndex = 0, LANDING_lastIndex = 0\<rparr>"

definition default_flags :: flags where
  "default_flags =
     \<lparr>loadBalance = False, landing = False, ipv6Enabled = False, fullConfig = False,
      keepAliveEnabled = False, fakeIPEnabled = False, quicEnabled = False,
      regexFilter = False, countryThreshold = 0\<rparr>"

definition nodes_config :: "jsstring list \<Rightarrow> config" where
  "nodes_config nms = \<lparr>config.proxies = Some (map (\<lambda>n. \<lparr>proxy.name = n\<rparr>) nms)\<rparr>"

section \<open>The module state is never written\<close>

lemma RegExp_test_not_global:
  "\<not> global R \<Longrightarrow> RegExp_test R S li = (matches R S, li)"
  by (simp add: RegExp_test_def matches_def split: option.splits)

lemma not_global_consts [simp]:
  "\<not> global LOW_COST_REGEX" "\<not> global LANDING_REGEX" "\<not> global (RegExp_new src)"
  by (simp_all add: LOW_COST_REGEX_def LANDING_REGEX_def RegExp_new_def)

lemma filter_test_pure:
  "\<not> global R \<Longrightarrow>
   filter_test R ps li = (filter (\<lambda>p. matches R (proxy.name p)) ps, li)"
  by (induction ps arbitrary: li) (simp_all add: RegExp_test_not_global)

lemma parseLowCost_pure:
  "parseLowCost cfg st = (filter (matches LOW_COST_REGEX) (node_names cfg), st)"
  by (simp add: parseLowCost_def filter_test_pure node_names_def filter_map comp_def)

lemma parseLandingNodes_pure:
  "parseLandingNodes cfg st = (filter (matches LANDING_REGEX) (node_names cfg), st)"
  by (simp add: parseLandingNodes_def filter_test_pure node_names_def filter_map comp_def)

lemma classify_loop_pure:
  "classify_loop ps cn st = (collect (map proxy.name ps) cn, st)"
  by (induction ps arbitrary: cn st)
     (simp_all add: RegExp_test_not_global classify_def split: option.splits)

lemma parseCountries_pure: "parseCountries cfg st = (countryInfo_of cfg, st)"
  by (simp add: parseCountries_def classify_loop_pure node_names_def countryInfo_of_def)

lemma main_pure:
  "main fl cfg st =
     (let countryInfo = countryInfo_of cfg;
          lowCostNodes = filter (matches LOW_COST_REGEX) (node_names cfg);
          landingNodes =
            (if landing fl then filter (matches LANDING_REGEX) (node_names cfg) else []);
          countryGroupNames = getCountryGroupNames countryInfo (countryThreshold fl);
          countries = stripNodeSuffix countryGroupNames;
          base = buildBaseLists fl (landing fl) lowCostNodes countryGroupNames;
          countryProxyGroups =
            buildCountryProxyGroups countries (landing fl) (loadBalance fl) (regexFilter fl)
              countryInfo;
          proxyGroups =
            buildProxyGroups fl (landing fl) countries countryProxyGroups lowCostNodes
              landingNodes (defaultProxies base) (defaultProxiesDirect base)
              (defaultSelector base) (defaultFallback base)
      in (\<lparr>result_config.proxies = config.proxies cfg,
           proxy_groups =
             proxyGroups
             @ [(group (js ''GLOBAL'') select)
                  \<lparr>include_all := Some True,
                   proxy_group.proxies := Some (map proxy_group.name proxyGroups)\<rparr>]\<rparr>,
          st))"
proof -
  have nn: "node_names \<lparr>config.proxies = config.proxies cfg\<rparr> = node_names cfg"
    by (simp add: node_names_def proxies_or_empty_def)
  have ci: "countryInfo_of \<lparr>config.proxies = config.proxies cfg\<rparr> = countryInfo_of cfg"
    by (simp add: countryInfo_of_def nn)
  show ?thesis
    by (cases "landing fl")
       (simp_all add: main_def parseCountries_pure parseLowCost_pure parseLandingNodes_pure
          nn ci Let_def)
qed

section \<open>Evaluation on sample names\<close>

text \<open>The compiled patterns, evaluated once.\<close>

lemma compiledRegex_explicit [code]:
  "compiledRegex =
     map (\<lambda>(c, alts).
            (c, \<lparr>alternatives = map (map Lit) alts, ignoreCase = False, global = False\<rparr>))
      [([0x9999, 0x6E2F],
        [[0x9999, 0x6E2F], [0x6E2F], [0x0048, 0x004B], [0x0068, 0x006B],
         [0x0048, 0x006F, 0x006E, 0x0067, 0x0020, 0x004B, 0x006F, 0x006E, 0x0067],
         [0x0048, 0x006F, 0x006E, 0x0067, 0x004B, 0x006F, 0x006E, 0x0067],
         [0x0068, 0x006F, 0x006E, 0x0067, 0x006B, 0x006F, 0x006E, 0x0067],
         [0xD83C, 0xDDED, 0xD83C, 0xDDF0]]),
       ([0x6FB3, 0x95E8],
        [[0x6FB3, 0x95E8], [0x004D, 0x004F], [0x004D, 0x0061, 0x0063, 0x0061, 0x0075],
         [0xD83C, 0xDDF2, 0xD83C, 0xDDF4]]),
       ([0x53F0, 0x6E7E],
        [[0x53F0], [0x65B0, 0x5317], [0x5F70, 0x5316], [0x0054, 0x0057],
         [0x0054, 0x0061, 0x0069, 0x0077, 0x0061, 0x006E], [0xD83C, 0xDDF9, 0xD83C, 0xDDFC]]),
       ([0x65B0, 0x52A0, 0x5761],
        [[0x65B0, 0x52A0, 0x5761], [0x5761], [0x72EE, 0x57CE], [0x0053, 0x0047],
         [0x0053, 0x0069, 0x006E, 0x0067, 0x0061, 0x0070, 0x006F, 0x0072, 0x0065],
         [0xD83C, 0xDDF8, 0xD83C, 0xDDEC]]),
       ([0x65E5, 0x672C],
        [[0x65E5, 0x672C], [0x5DDD, 0x65E5], [0x4E1C, 0x4EAC], [0x5927, 0x962A],
         [0x6CC9, 0x65E5], [0x57FC, 0x7389], [0x6CAA, 0x65E5], [0x6DF1, 0x65E5],
         [0x004A, 0x0050], [0x004A, 0x0061, 0x0070, 0x0061, 0x006E],
         [0xD83C, 0xDDEF, 0xD83C, 0xDDF5]]),
       ([0x97E9, 0x56FD],
        [[0x004B, 0x0052], [0x004B, 0x006F, 0x0072, 0x0065, 0x0061],
         [0x004B, 0x004F, 0x0052], [0x9996, 0x5C14], [0x97E9], [0x97D3],
         [0xD83C, 0xDDF0, 0xD83C, 0xDDF7]]),
       ([0x7F8E, 0x56FD],
        [[0x7F8E, 0x56FD], [0x7F8E], [0x0055, 0x0053],
         [0x0055, 0x006E, 0x0069, 0x0074, 0x0065, 0x0064, 0x0020, 0x0053, 0x0074, 0x0061, 0x0074, 0x0065, 0x0073],
         [0xD83C, 0xDDFA, 0xD83C, 0xDDF8]]),
       ([0x52A0, 0x62FF, 0x5927],
        [[0x52A0, 0x62FF, 0x5927], [0x0043, 0x0061, 0x006E, 0x0061, 0x0064, 0x0061],
         [0x0043, 0x0041], [0xD83C, 0xDDE8, 0xD83C, 0xDDE6]]),
       ([0x82F1, 0x56FD],
        [[0x82F1, 0x56FD],
         [0x0055, 0x006E, 0x0069, 0x0074, 0x0065, 0x0064, 0x0020, 0x004B, 0x0069, 0x006E, 0x0067, 0x0064, 0x006F, 0x006D],
         [0x0055, 0x004B], [0x4F26, 0x6566],
         [0x004C, 0x006F, 0x006E, 0x0064, 0x006F, 0x006E], [0xD83C, 0xDDEC, 0xD83C, 0xDDE7]]),
       ([0x6FB3, 0x5927, 0x5229, 0x4E9A],
        [[0x6FB3, 0x6D32], [0x6FB3, 0x5927, 0x5229, 0x4E9A], [0x0041, 0x0055],
         [0x0041, 0x0075, 0x0073, 0x0074, 0x0072, 0x0061, 0x006C, 0x0069, 0x0061],
         [0xD83C, 0xDDE6, 0xD83C, 0xDDFA]]),
       ([0x5FB7, 0x56FD],
        [[0x5FB7, 0x56FD], [0x5FB7], [0x0044, 0x0045],
         [0x0047, 0x0065, 0x0072, 0x006D, 0x0061, 0x006E, 0x0079],
         [0xD83C, 0xDDE9, 0xD83C, 0xDDEA]]),
       ([0x6CD5, 0x56FD],
        [[0x6CD5, 0x56FD], [0x6CD5], [0x0046, 0x0052],
         [0x0046, 0x0072, 0x0061, 0x006E, 0x0063, 0x0065], [0xD83C, 0xDDEB, 0xD83C, 0xDDF7]]),
       ([0x4FC4, 0x7F57, 0x65AF],
        [[0x4FC4, 0x7F57, 0x65AF], [0x4FC4], [0x0052, 0x0055],
         [0x0052, 0x0075, 0x0073, 0x0073, 0x0069, 0x0061], [0xD83C, 0xDDF7, 0xD83C, 0xDDFA]]),
       ([0x6CF0, 0x56FD],
        [[0x6CF0, 0x56FD], [0x6CF0], [0x0054, 0x0048],
         [0x0054, 0x0068, 0x0061, 0x0069, 0x006C, 0x0061, 0x006E, 0x0064],
         [0xD83C, 0xDDF9, 0xD83C, 0xDDED]]),
       ([0x5370, 0x5EA6],
        [[0x5370, 0x5EA6], [0x0049, 0x004E], [0x0049, 0x006E, 0x0064, 0x0069, 0x0061],
         [0xD83C, 0xDDEE, 0xD83C, 0xDDF3]]),
       ([0x9A6C, 0x6765, 0x897F, 0x4E9A],
        [[0x9A6C, 0x6765, 0x897F, 0x4E9A], [0x9A6C, 0x6765], [0x004D, 0x0059],
         [0x004D, 0x0061, 0x006C, 0x0061, 0x0079, 0x0073, 0x0069, 0x0061],
         [0xD83C, 0xDDF2, 0xD83C, 0xDDFE]])]"
  by (simp add: compiledRegex_def countriesMeta_def RegExp_new_def strip_ci_prefix_def js_def)

lemma classify_samples:
  "classify (js ''HK-1'') = Some [0x9999, 0x6E2F]"
  "classify (js ''HK-2'') = Some [0x9999, 0x6E2F]"
  "classify (js ''HK-3'') = Some [0x9999, 0x6E2F]"
  "classify (js ''US-1'') = Some [0x7F8E, 0x56FD]"
  "classify (js ''US-UK'') = Some [0x7F8E, 0x56FD]"
  "classify (js ''KR'') = Some [0x97E9, 0x56FD]"
  "classify (js ''MO'') = Some [0x6FB3, 0x95E8]"
  "classify (js ''HK 0.5x'') = None"
  "classify [0x9999, 0x6E2F, 0x8282, 0x70B9] = Some [0x9999, 0x6E2F]"
  by code_simp+

lemma matches_samples:
  "\<not> matches LANDING_REGEX (js ''US-UK'')"
  "\<not> matches LOW_COST_REGEX (js ''US-UK'')"
  "\<not> matches LOW_COST_REGEX (js ''HK-1'')"
  "matches LOW_COST_REGEX (js ''HK 0.5x'')"
  "\<not> matches LOW_COST_REGEX [0x9999, 0x6E2F, 0x8282, 0x70B9]"
  by code_simp+

lemma pattern_samples:
  "matches (snd (compiledRegex ! 6)) (js ''US-UK'')"
  "matches (snd (compiledRegex ! 8)) (js ''US-UK'')"
  "list_all (\<lambda>j. \<not> matches (snd (compiledRegex ! j)) (js ''US-UK'')) [0, 1, 2, 3, 4, 5]"
  by code_simp+

lemma weight_samples:
  "weight_of [0x97E9, 0x56FD] = \<infinity>" "weight_of [0x6FB3, 0x95E8] = \<infinity>"
  by (simp_all add: weight_of_def countriesMeta_def)

lemma length_countriesMeta: "length countriesMeta = 16"
  by (simp add: countriesMeta_def)

lemma node_names_nodes_config [simp]: "node_names (nodes_config nms) = nms"
  by (simp add: node_names_def nodes_config_def proxies_or_empty_def comp_def)

section \<open>Facts of the tables\<close>

lemmas name_defs =
  SELECT_def MANUAL_def FRONT_def LANDING_def FALLBACK_def LOW_COST_def DIRECT_def
  NODE_SUFFIX_def js_def

lemma country_group_names_eval:
  "country_group_names =
     map (\<lambda>c. c @ [0x8282, 0x70B9])
       [[0x9999, 0x6E2F], [0x6FB3, 0x95E8], [0x53F0, 0x6E7E], [0x65B0, 0x52A0, 0x5761],
        [0x65E5, 0x672C], [0x97E9, 0x56FD], [0x7F8E, 0x56FD], [0x52A0, 0x62FF, 0x5927],
        [0x82F1, 0x56FD], [0x6FB3, 0x5927, 0x5229, 0x4E9A], [0x5FB7, 0x56FD], [0x6CD5, 0x56FD],
        [0x4FC4, 0x7F57, 0x65AF], [0x6CF0, 0x56FD], [0x5370, 0x5EA6],
        [0x9A6C, 0x6765, 0x897F, 0x4E9A]]"
  by (simp add: country_group_names_def countriesMeta_def NODE_SUFFIX_def)

lemma keys_eval:
  "map fst countriesMeta =
       [[0x9999, 0x6E2F], [0x6FB3, 0x95E8], [0x53F0, 0x6E7E], [0x65B0, 0x52A0, 0x5761],
        [0x65E5, 0x672C], [0x97E9, 0x56FD], [0x7F8E, 0x56FD], [0x52A0, 0x62FF, 0x5927],
        [0x82F1, 0x56FD], [0x6FB3, 0x5927, 0x5229, 0x4E9A], [0x5FB7, 0x56FD], [0x6CD5, 0x56FD],
        [0x4FC4, 0x7F57, 0x65AF], [0x6CF0, 0x56FD], [0x5370, 0x5EA6],
        [0x9A6C, 0x6765, 0x897F, 0x4E9A]]"
  by (simp add: countriesMeta_def)

lemma distinct_keys: "distinct (map fst countriesMeta)"
  unfolding keys_eval by simp

lemma reserved_not_country:
  "list_all (\<lambda>n. n \<notin> set country_group_names) reserved_names"
  unfolding country_group_names_eval
  by (simp add: reserved_names_def service_group_names_def proxied_service_names_def name_defs)

lemma distinct_reserved: "distinct reserved_names"
  by (simp add: reserved_names_def service_group_names_def proxied_service_names_def name_defs)

section \<open>Determinism\<close>

text \<open>
  C1. Calling \<open>main\<close> leaves the module state as it found it, and the result does not
  depend on that state; so a second call on the same flags and configuration, in the
  state the first call left, returns the same result as the first.
\<close>

theorem main_deterministic:
  "snd (main fl cfg st) = st
   \<and> fst (main fl cfg st') = fst (main fl cfg st)
   \<and> fst (main fl cfg (snd (main fl cfg st))) = fst (main fl cfg st)"
  by (simp add: main_pure Let_def)

section \<open>The catch-all group\<close>

text \<open>
  C2. The last group of the sequence is \<open>GLOBAL\<close>, and its candidate list is the list of
  the names of all groups before it, in their order.
\<close>

theorem catch_all_completeness:
  "final_groups fl cfg st \<noteq> []
   \<and> proxy_group.name (last (final_groups fl cfg st)) = js ''GLOBAL''
   \<and> proxy_group.proxies (last (final_groups fl cfg st)) =
       Some (map proxy_group.name (butlast (final_groups fl cfg st)))"
  by (simp add: final_groups_def main_pure Let_def group_def)

section \<open>A missing node list\<close>

text \<open>
  C9. A configuration without a node list gives the same group sequence as one with an
  empty node list. (\<open>main\<close> has no branch that raises.)
\<close>

theorem missing_proxies_as_empty:
  "final_groups fl \<lparr>config.proxies = None\<rparr> st = final_groups fl \<lparr>config.proxies = Some []\<rparr> st"
  by (simp add: final_groups_def main_pure Let_def node_names_def countryInfo_of_def
        proxies_or_empty_def)

section \<open>Buckets\<close>

lemma map_fst_push_node:
  "map fst (push_node c nm cn) =
     (if c \<in> set (map fst cn) then map fst cn else map fst cn @ [c])"
  by (induction cn) (fastforce simp: image_iff)+

lemma map_of_push_node:
  "map_of (push_node c nm cn) =
     (map_of cn)(c \<mapsto> (case map_of cn c of None \<Rightarrow> [nm] | Some ns \<Rightarrow> ns @ [nm]))"
  by (induction cn) (auto simp: fun_eq_iff)

lemma map_fst_collect:
  "map fst (collect nms cn) = add_new (map fst cn) (List.map_filter classify nms)"
  by (induction nms arbitrary: cn)
     (auto simp: List.map_filter_simps map_fst_push_node split: option.splits)

lemma set_add_new: "set (add_new acc xs) = set acc \<union> set xs"
  by (induction xs arbitrary: acc) auto

lemma distinct_add_new: "distinct acc \<Longrightarrow> distinct (add_new acc xs)"
  by (induction xs arbitrary: acc) auto

lemma map_of_collect:
  "map_of (collect nms cn) c =
     (case map_of cn c of
        Some ns \<Rightarrow> Some (ns @ filter (\<lambda>nm. classify nm = Some c) nms)
      | None \<Rightarrow> (if filter (\<lambda>nm. classify nm = Some c) nms = [] then None
                 else Some (filter (\<lambda>nm. classify nm = Some c) nms)))"
  by (induction nms arbitrary: cn)
     (auto simp: map_of_push_node split: option.splits)

lemma distinct_collect: "distinct (map fst (collect nms []))"
  by (simp add: map_fst_collect distinct_add_new)

lemma collect_entry:
  "((c, ns) \<in> set (collect nms [])) =
     (ns = filter (\<lambda>nm. classify nm = Some c) nms \<and> ns \<noteq> [])"
proof -
  have "((c, ns) \<in> set (collect nms [])) = (map_of (collect nms []) c = Some ns)"
    using distinct_collect by (simp add: map_of_eq_Some_iff)
  then show ?thesis
    by (auto simp: map_of_collect)
qed

lemma map_country_countryInfo_of:
  "map country (countryInfo_of cfg) = map fst (collect (node_names cfg) [])"
  by (simp add: countryInfo_of_def comp_def case_prod_unfold)

lemma distinct_countries: "distinct (map country (countryInfo_of cfg))"
  by (simp add: map_country_countryInfo_of distinct_collect)

lemma in_countryInfo_of:
  "(b \<in> set (countryInfo_of cfg)) =
     (nodes b = filter (\<lambda>nm. classify nm = Some (country b)) (node_names cfg) \<and> nodes b \<noteq> [])"
proof -
  have "(b \<in> set (countryInfo_of cfg)) = ((country b, nodes b) \<in> set (collect (node_names cfg) []))"
    by (force simp: countryInfo_of_def image_iff)
  then show ?thesis by (simp add: collect_entry)
qed

lemma bucket_member:
  "b \<in> set (countryInfo_of cfg) \<Longrightarrow>
   (nm \<in> set (nodes b)) = (nm \<in> set (node_names cfg) \<and> classify nm = Some (country b))"
  by (auto simp: in_countryInfo_of)

lemma classified_has_bucket:
  assumes "nm \<in> set (node_names cfg)" "classify nm = Some c"
  shows "\<exists>b \<in> set (countryInfo_of cfg). country b = c \<and> nm \<in> set (nodes b)"
proof -
  let ?ns = "filter (\<lambda>n. classify n = Some c) (node_names cfg)"
  have "nm \<in> set ?ns" using assms by simp
  then have "?ns \<noteq> []" by (auto simp: filter_empty_conv)
  then have "\<lparr>country = c, nodes = ?ns\<rparr> \<in> set (countryInfo_of cfg)"
    by (simp add: in_countryInfo_of)
  then show ?thesis using \<open>nm \<in> set ?ns\<close> by force
qed

lemma classify_not_special:
  "classify nm = Some c \<Longrightarrow> \<not> matches LANDING_REGEX nm \<and> \<not> matches LOW_COST_REGEX nm"
  by (auto simp: classify_def split: if_splits)

lemma first_match_least:
  "i < length rs \<Longrightarrow> fst (RegExp_test (snd (rs ! i)) nm 0) \<Longrightarrow>
   (\<forall>j<i. \<not> fst (RegExp_test (snd (rs ! j)) nm 0)) \<Longrightarrow>
   first_match rs nm = Some (fst (rs ! i))"
proof (induction rs arbitrary: i)
  case Nil
  then show ?case by simp
next
  case (Cons r rs)
  obtain c R where r: "r = (c, R)" by (cases r)
  show ?case
  proof (cases i)
    case 0
    with Cons.prems r show ?thesis by simp
  next
    case (Suc k)
    with Cons.prems have "\<not> fst (RegExp_test (snd ((r # rs) ! 0)) nm 0)" by blast
    moreover have "first_match rs nm = Some (fst (rs ! k))"
      using Cons.prems Suc by (intro Cons.IH) auto
    ultimately show ?thesis using r Suc by simp
  qed
qed

lemma compiledRegex_nth:
  "i < length countriesMeta \<Longrightarrow>
   compiledRegex ! i =
     (fst (countriesMeta ! i), RegExp_new (strip_ci_prefix (pattern (snd (countriesMeta ! i)))))"
  by (simp add: compiledRegex_def case_prod_unfold)

section \<open>The buckets are a partition\<close>

text \<open>
  C5. The classification returns each country at most once; no name in any bucket matches
  the landing pattern or the low-cost pattern; and two different buckets share no name,
  so a name lies in at most one bucket.
\<close>

theorem buckets_partition:
  "distinct (map country (fst (parseCountries cfg st)))
   \<and> (\<forall>b \<in> set (fst (parseCountries cfg st)). \<forall>nm \<in> set (nodes b).
        \<not> matches LANDING_REGEX nm \<and> \<not> matches LOW_COST_REGEX nm)
   \<and> (\<forall>b \<in> set (fst (parseCountries cfg st)). \<forall>b' \<in> set (fst (parseCountries cfg st)).
        b \<noteq> b' \<longrightarrow> set (nodes b) \<inter> set (nodes b') = {})"
proof -
  have inj: "b = b'" if "b \<in> set (countryInfo_of cfg)" "b' \<in> set (countryInfo_of cfg)"
    "country b = country b'" for b b'
    using that by (simp add: in_countryInfo_of)
  have disj: "set (nodes b) \<inter> set (nodes b') = {}"
    if "b \<in> set (countryInfo_of cfg)" "b' \<in> set (countryInfo_of cfg)" "b \<noteq> b'" for b b'
  proof (rule ccontr)
    assume "set (nodes b) \<inter> set (nodes b') \<noteq> {}"
    then obtain nm where "nm \<in> set (nodes b)" "nm \<in> set (nodes b')" by auto
    then have "country b = country b'"
      using that(1,2) by (simp add: bucket_member)
    then show False using inj that by blast
  qed
  have special: "\<not> matches LANDING_REGEX nm \<and> \<not> matches LOW_COST_REGEX nm"
    if "b \<in> set (countryInfo_of cfg)" "nm \<in> set (nodes b)" for b nm
    using that classify_not_special by (simp add: bucket_member)
  show ?thesis
    using distinct_countries disj special by (simp add: parseCountries_pure)
qed

lemma countryInfo_samples:
  "countryInfo_of (nodes_config [js ''HK-1'', js ''HK 0.5x'', js ''US-1'']) =
     [\<lparr>country = [0x9999, 0x6E2F], nodes = [js ''HK-1'']\<rparr>,
      \<lparr>country = [0x7F8E, 0x56FD], nodes = [js ''US-1'']\<rparr>]"
  "countryInfo_of (nodes_config [js ''KR'', js ''MO'']) =
     [\<lparr>country = [0x97E9, 0x56FD], nodes = [js ''KR'']\<rparr>,
      \<lparr>country = [0x6FB3, 0x95E8], nodes = [js ''MO'']\<rparr>]"
  "countryInfo_of (nodes_config [js ''MO'', js ''KR'']) =
     [\<lparr>country = [0x6FB3, 0x95E8], nodes = [js ''MO'']\<rparr>,
      \<lparr>country = [0x97E9, 0x56FD], nodes = [js ''KR'']\<rparr>]"
  "countryInfo_of (nodes_config [[0x9999, 0x6E2F, 0x8282, 0x70B9]]) =
     [\<lparr>country = [0x9999, 0x6E2F], nodes = [[0x9999, 0x6E2F, 0x8282, 0x70B9]]\<rparr>]"
  "countryInfo_of (nodes_config [js ''HK-1'']) =
     [\<lparr>country = [0x9999, 0x6E2F], nodes = [js ''HK-1'']\<rparr>]"
  by (simp_all add: countryInfo_of_def classify_samples)

theorem buckets_partition_witness:
  "fst (parseCountries (nodes_config [js ''HK-1'', js ''HK 0.5x'', js ''US-1'']) fresh_state) =
     [\<lparr>country = [0x9999, 0x6E2F], nodes = [js ''HK-1'']\<rparr>,
      \<lparr>country = [0x7F8E, 0x56FD], nodes = [js ''US-1'']\<rparr>]
   \<and> set [js ''HK-1''] \<inter> set [js ''US-1''] = {}
   \<and> \<not> matches LANDING_REGEX (js ''HK-1'') \<and> \<not> matches LOW_COST_REGEX (js ''HK-1'')
   \<and> matches LOW_COST_REGEX (js ''HK 0.5x'')"
proof -
  have ev: "fst (parseCountries (nodes_config [js ''HK-1'', js ''HK 0.5x'', js ''US-1''])
                   fresh_state) =
     [\<lparr>country = [0x9999, 0x6E2F], nodes = [js ''HK-1'']\<rparr>,
      \<lparr>country = [0x7F8E, 0x56FD], nodes = [js ''US-1'']\<rparr>]"
    by (simp add: parseCountries_pure countryInfo_samples)
  show ?thesis
    using buckets_partition[of "nodes_config [js ''HK-1'', js ''HK 0.5x'', js ''US-1'']" fresh_state]
    unfolding ev by (simp add: matches_samples)
qed

section \<open>First match wins\<close>

text \<open>
  C6. Let a node name match neither the landing nor the low-cost pattern, and let \<open>i\<close>
  be the first position of \<open>countriesMeta\<close>, in declaration order, whose pattern matches
  it (later patterns may match as well). Then the name is in the bucket of country \<open>i\<close>
  and in the bucket of no other country, whatever the module state.
\<close>

theorem first_match_wins:
  assumes "nm \<in> set (node_names cfg)"
    and "\<not> matches LANDING_REGEX nm" and "\<not> matches LOW_COST_REGEX nm"
    and "i < length countriesMeta"
    and "pattern_matches (snd (countriesMeta ! i)) nm"
    and "\<forall>j<i. \<not> pattern_matches (snd (countriesMeta ! j)) nm"
  shows "(\<exists>b \<in> set (fst (parseCountries cfg st)).
            country b = fst (countriesMeta ! i) \<and> nm \<in> set (nodes b))
       \<and> (\<forall>b \<in> set (fst (parseCountries cfg st)).
            nm \<in> set (nodes b) \<longrightarrow> country b = fst (countriesMeta ! i))"
proof -
  have len: "length compiledRegex = length countriesMeta"
    by (simp add: compiledRegex_def)
  have "first_match compiledRegex nm = Some (fst (compiledRegex ! i))"
  proof (rule first_match_least)
    show "i < length compiledRegex" using assms(4) len by simp
    show "fst (RegExp_test (snd (compiledRegex ! i)) nm 0)"
      using assms(4,5) by (simp add: compiledRegex_nth pattern_matches_def matches_def)
    show "\<forall>j<i. \<not> fst (RegExp_test (snd (compiledRegex ! j)) nm 0)"
      using assms(4,6) by (simp add: compiledRegex_nth pattern_matches_def matches_def)
  qed
  then have cl: "classify nm = Some (fst (countriesMeta ! i))"
    using assms(2,3,4) by (simp add: classify_def compiledRegex_nth)
  show ?thesis
    using classified_has_bucket[OF assms(1) cl] cl
    by (auto simp: parseCountries_pure bucket_member)
qed

lemma pattern_matches_compiled:
  "j < length countriesMeta \<Longrightarrow>
   pattern_matches (snd (countriesMeta ! j)) nm = matches (snd (compiledRegex ! j)) nm"
  by (simp add: pattern_matches_def compiledRegex_nth)

lemma all_less_6: "(\<forall>j<6. P j) = list_all P [0, 1, 2, 3, 4, 5::nat]"
proof -
  have "{j::nat. j < 6} = {0, 1, 2, 3, 4, 5}" by auto
  then have "(\<forall>j<6. P j) = (\<forall>j \<in> {0, 1, 2, 3, 4, 5::nat}. P j)" by blast
  then show ?thesis by simp
qed

theorem first_match_wins_witness:
  "pattern_matches (snd (countriesMeta ! 6)) (js ''US-UK'')
   \<and> pattern_matches (snd (countriesMeta ! 8)) (js ''US-UK'')
   \<and> map fst countriesMeta ! 6 = [0x7F8E, 0x56FD]
   \<and> map fst countriesMeta ! 8 = [0x82F1, 0x56FD]
   \<and> (\<exists>b \<in> set (fst (parseCountries (nodes_config [js ''US-UK'']) fresh_state)).
          country b = [0x7F8E, 0x56FD] \<and> js ''US-UK'' \<in> set (nodes b))
   \<and> \<not> (\<exists>b \<in> set (fst (parseCountries (nodes_config [js ''US-UK'']) fresh_state)).
            js ''US-UK'' \<in> set (nodes b) \<and> country b \<noteq> [0x7F8E, 0x56FD])"
proof -
  have in_names: "js ''US-UK'' \<in> set (node_names (nodes_config [js ''US-UK'']))" by simp
  have i: "6 < length countriesMeta" by (simp add: length_countriesMeta)
  have m6: "pattern_matches (snd (countriesMeta ! 6)) (js ''US-UK'')"
    by (simp add: pattern_matches_compiled length_countriesMeta pattern_samples)
  have m8: "pattern_matches (snd (countriesMeta ! 8)) (js ''US-UK'')"
    by (simp add: pattern_matches_compiled length_countriesMeta pattern_samples)
  have before: "\<forall>j<6. \<not> pattern_matches (snd (countriesMeta ! j)) (js ''US-UK'')"
    using pattern_samples(3)
    by (simp add: all_less_6 pattern_matches_compiled length_countriesMeta)
  have k6: "fst (countriesMeta ! 6) = [0x7F8E, 0x56FD]"
    and k8: "map fst countriesMeta ! 6 = [0x7F8E, 0x56FD]"
            "map fst countriesMeta ! 8 = [0x82F1, 0x56FD]"
    by (simp_all add: keys_eval nth_map[symmetric] length_countriesMeta del: nth_map)
  show ?thesis
    using first_match_wins[OF in_names matches_samples(1) matches_samples(2) i m6 before,
            of fresh_state] m6 m8 k8
    unfolding k6 by blast
qed

section \<open>The names of the emitted groups\<close>

lemma strip_suffix_append [simp]: "strip_suffix (c @ NODE_SUFFIX) = c"
  by (simp add: strip_suffix_def)

lemma getCountryGroupNames_surfaced:
  "getCountryGroupNames info th = map (\<lambda>c. c @ NODE_SUFFIX) (surfaced_countries info th)"
  by (simp add: getCountryGroupNames_def surfaced_countries_def Let_def comp_def)

lemma stripNodeSuffix_names:
  "stripNodeSuffix (getCountryGroupNames info th) = surfaced_countries info th"
  by (simp add: getCountryGroupNames_surfaced stripNodeSuffix_def comp_def)

lemma set_surfaced: "set (surfaced_countries info th) \<subseteq> set (map country info)"
  by (auto simp: surfaced_countries_def)

lemma first_match_key: "first_match rs nm = Some c \<Longrightarrow> c \<in> set (map fst rs)"
  by (induction rs nm rule: first_match.induct) (auto split: if_splits)

lemma map_fst_compiledRegex: "map fst compiledRegex = map fst countriesMeta"
  by (simp add: compiledRegex_def comp_def case_prod_unfold)

lemma classify_key: "classify nm = Some c \<Longrightarrow> c \<in> set (map fst countriesMeta)"
  using first_match_key[of compiledRegex nm c]
  by (simp add: classify_def map_fst_compiledRegex split: if_splits)

lemma countries_are_keys:
  "set (map country (countryInfo_of cfg)) \<subseteq> set (map fst countriesMeta)"
proof
  fix c assume "c \<in> set (map country (countryInfo_of cfg))"
  then obtain b where b: "b \<in> set (countryInfo_of cfg)" "country b = c" by auto
  then obtain nm where "nm \<in> set (nodes b)"
    by (cases "nodes b") (auto simp: in_countryInfo_of)
  with b have "classify nm = Some c" by (simp add: bucket_member)
  then show "c \<in> set (map fst countriesMeta)" by (rule classify_key)
qed

lemma surfaced_are_keys:
  "set (surfaced_countries (countryInfo_of cfg) th) \<subseteq> set (map fst countriesMeta)"
  using set_surfaced countries_are_keys by blast

lemma name_country_group [simp]:
  "proxy_group.name (country_group l lb rf info c meta) = c @ NODE_SUFFIX"
  by (simp add: country_group_def group_def Let_def)

lemma buildCountryProxyGroups_keys:
  "set cs \<subseteq> set (map fst countriesMeta) \<Longrightarrow>
   buildCountryProxyGroups cs l lb rf info =
     map (\<lambda>c. country_group l lb rf info c (the (map_of countriesMeta c))) cs"
proof (induction cs)
  case Nil
  then show ?case by (simp add: buildCountryProxyGroups_def)
next
  case (Cons c cs)
  then have "c \<in> fst ` set countriesMeta" by simp
  then obtain meta where "map_of countriesMeta c = Some meta"
    by (cases "map_of countriesMeta c") (simp_all add: map_of_eq_None_iff)
  with Cons show ?case by (simp add: buildCountryProxyGroups_def)
qed

lemma buildCountryProxyGroups_names:
  "set cs \<subseteq> set (map fst countriesMeta) \<Longrightarrow>
   map proxy_group.name (buildCountryProxyGroups cs l lb rf info) = map (\<lambda>c. c @ NODE_SUFFIX) cs"
  by (simp add: buildCountryProxyGroups_keys comp_def)

lemma map_filter_id_append:
  "List.map_filter id (xs @ ys) = List.map_filter id xs @ List.map_filter id ys"
  by (simp add: List.map_filter_def)

lemma map_filter_id_Some: "List.map_filter id (map Some ys) = ys"
  by (induction ys) (simp_all add: List.map_filter_simps)

lemma buildProxyGroups_names:
  "map proxy_group.name
     (buildProxyGroups fl l cs cpg lcn lnn dp dpd ds df) =
   functional_group_names l (length lcn > 0 \<or> regexFilter fl) @ map proxy_group.name cpg"
  by (simp add: buildProxyGroups_def functional_group_names_def service_group_names_def proxied_service_names_def
        FRONT_def List.map_filter_simps select_group_def group_def Let_def
        map_filter_id_append map_filter_id_Some del: append_Cons)

lemma final_group_names:
  "map proxy_group.name (final_groups fl cfg st) =
     functional_group_names (landing fl)
       (filter (matches LOW_COST_REGEX) (node_names cfg) \<noteq> [] \<or> regexFilter fl)
     @ getCountryGroupNames (countryInfo_of cfg) (countryThreshold fl) @ [js ''GLOBAL'']"
proof -
  have "map proxy_group.name
          (buildCountryProxyGroups
             (stripNodeSuffix (getCountryGroupNames (countryInfo_of cfg) (countryThreshold fl)))
             l lb rf info) =
        getCountryGroupNames (countryInfo_of cfg) (countryThreshold fl)" for l lb rf info
    unfolding stripNodeSuffix_names
    using buildCountryProxyGroups_names[OF surfaced_are_keys]
    by (simp add: getCountryGroupNames_surfaced)
  then show ?thesis
    by (simp add: final_groups_def main_pure Let_def buildProxyGroups_names group_def)
qed

lemma functional_subset_reserved:
  "set (functional_group_names l lc) \<subseteq> set reserved_names"
  by (auto simp: functional_group_names_def reserved_names_def)

lemma reserved_notin_country: "n \<in> set reserved_names \<Longrightarrow> n \<notin> set country_group_names"
  using reserved_not_country by (simp add: list_all_iff)

lemma key_group_name_in:
  "c \<in> set (map fst countriesMeta) \<Longrightarrow> c @ NODE_SUFFIX \<in> set country_group_names"
  by (force simp: country_group_names_def)

lemma emitted_country_groups_eq:
  "emitted_country_groups fl cfg st =
     getCountryGroupNames (countryInfo_of cfg) (countryThreshold fl)"
proof -
  have a: "filter (\<lambda>n. n \<in> set country_group_names) (functional_group_names l lc) = []" for l lc
  proof -
    have "\<forall>n \<in> set (functional_group_names l lc). n \<notin> set country_group_names"
      using functional_subset_reserved[of l lc] reserved_notin_country by blast
    then show ?thesis by (simp add: filter_empty_conv)
  qed
  have b: "js ''GLOBAL'' \<notin> set country_group_names"
    by (rule reserved_notin_country) (simp add: reserved_names_def)
  have c: "filter (\<lambda>n. n \<in> set country_group_names)
             (getCountryGroupNames (countryInfo_of cfg) th) =
           getCountryGroupNames (countryInfo_of cfg) th" for th
  proof -
    have "\<forall>c \<in> set (surfaced_countries (countryInfo_of cfg) th).
            c @ NODE_SUFFIX \<in> set country_group_names"
      using surfaced_are_keys[of cfg th] key_group_name_in by blast
    then show ?thesis
      by (simp add: getCountryGroupNames_surfaced filter_id_conv)
  qed
  show ?thesis
    by (simp add: emitted_country_groups_def final_group_names a b c)
qed

lemma final_groups_unfold:
  "final_groups fl cfg st =
     buildProxyGroups fl (landing fl)
       (surfaced_countries (countryInfo_of cfg) (countryThreshold fl))
       (buildCountryProxyGroups (surfaced_countries (countryInfo_of cfg) (countryThreshold fl))
          (landing fl) (loadBalance fl) (regexFilter fl) (countryInfo_of cfg))
       (filter (matches LOW_COST_REGEX) (node_names cfg))
       (if landing fl then filter (matches LANDING_REGEX) (node_names cfg) else [])
       (defaultProxies (buildBaseLists fl (landing fl)
          (filter (matches LOW_COST_REGEX) (node_names cfg))
          (getCountryGroupNames (countryInfo_of cfg) (countryThreshold fl))))
       (defaultProxiesDirect (buildBaseLists fl (landing fl)
          (filter (matches LOW_COST_REGEX) (node_names cfg))
          (getCountryGroupNames (countryInfo_of cfg) (countryThreshold fl))))
       (defaultSelector (buildBaseLists fl (landing fl)
          (filter (matches LOW_COST_REGEX) (node_names cfg))
          (getCountryGroupNames (countryInfo_of cfg) (countryThreshold fl))))
       (defaultFallback (buildBaseLists fl (landing fl)
          (filter (matches LOW_COST_REGEX) (node_names cfg))
          (getCountryGroupNames (countryInfo_of cfg) (countryThreshold fl))))
     @ [(group (js ''GLOBAL'') select)
          \<lparr>include_all := Some True,
           proxy_group.proxies :=
             Some (functional_group_names (landing fl)
                     (length (filter (matches LOW_COST_REGEX) (node_names cfg)) > 0
                      \<or> regexFilter fl)
                   @ getCountryGroupNames (countryInfo_of cfg) (countryThreshold fl))\<rparr>]"
proof -
  have "map proxy_group.name
          (buildCountryProxyGroups (surfaced_countries (countryInfo_of cfg) (countryThreshold fl))
             l lb rf info) =
        getCountryGroupNames (countryInfo_of cfg) (countryThreshold fl)" for l lb rf info
    using buildCountryProxyGroups_names[OF surfaced_are_keys]
    by (simp add: getCountryGroupNames_surfaced)
  then show ?thesis
    by (simp only: final_groups_def main_pure Let_def stripNodeSuffix_names fst_conv
          result_config.simps buildProxyGroups_names)
qed

section \<open>Bucket sizes and the surfaced countries\<close>

lemma filter_key_distinct:
  "distinct (map f xs) \<Longrightarrow> x \<in> set xs \<Longrightarrow> filter (\<lambda>y. f y = f x) xs = [x]"
proof (induction xs)
  case Nil
  then show ?case by simp
next
  case (Cons a xs)
  show ?case
  proof (cases "a = x")
    case True
    with Cons.prems have "f x \<notin> f ` set xs" by simp
    then have "\<forall>y \<in> set xs. f y \<noteq> f x" by (metis image_eqI)
    then have "filter (\<lambda>y. f y = f x) xs = []" by (simp add: filter_empty_conv)
    with True show ?thesis by simp
  next
    case False
    with Cons.prems have "x \<in> set xs" "f a \<noteq> f x" by auto
    with Cons show ?thesis by simp
  qed
qed

lemma bucket_size_eq:
  "bucket_size cfg st c = length (filter (\<lambda>nm. classify nm = Some c) (node_names cfg))"
proof (cases "\<exists>b \<in> set (countryInfo_of cfg). country b = c")
  case True
  then obtain b where b: "b \<in> set (countryInfo_of cfg)" "country b = c" by blast
  have "filter (\<lambda>y. country y = country b) (countryInfo_of cfg) = [b]"
    using distinct_countries b(1) by (rule filter_key_distinct)
  with b show ?thesis
    by (simp add: bucket_size_def parseCountries_pure in_countryInfo_of)
next
  case False
  then have "filter (\<lambda>b. country b = c) (countryInfo_of cfg) = []"
    by (simp add: filter_empty_conv)
  moreover have "filter (\<lambda>nm. classify nm = Some c) (node_names cfg) = []"
  proof (rule ccontr)
    assume "filter (\<lambda>nm. classify nm = Some c) (node_names cfg) \<noteq> []"
    then have "\<lparr>country = c, nodes = filter (\<lambda>nm. classify nm = Some c) (node_names cfg)\<rparr>
               \<in> set (countryInfo_of cfg)"
      by (simp add: in_countryInfo_of)
    with False show False by force
  qed
  ultimately show ?thesis by (simp add: bucket_size_def parseCountries_pure)
qed

lemma bucket_size_of_bucket:
  "b \<in> set (countryInfo_of cfg) \<Longrightarrow> bucket_size cfg st (country b) = length (nodes b)"
  by (simp add: bucket_size_eq in_countryInfo_of)

lemma bucket_size_pos_iff:
  "(1 \<le> bucket_size cfg st c) = (c \<in> set (map country (countryInfo_of cfg)))"
proof
  assume "1 \<le> bucket_size cfg st c"
  then have "filter (\<lambda>nm. classify nm = Some c) (node_names cfg) \<noteq> []"
    by (auto simp: bucket_size_eq)
  then have "\<lparr>country = c, nodes = filter (\<lambda>nm. classify nm = Some c) (node_names cfg)\<rparr>
             \<in> set (countryInfo_of cfg)"
    by (simp add: in_countryInfo_of)
  then show "c \<in> set (map country (countryInfo_of cfg))" by force
next
  assume "c \<in> set (map country (countryInfo_of cfg))"
  then obtain b where b: "b \<in> set (countryInfo_of cfg)" "country b = c" by auto
  then have "nodes b \<noteq> []" using in_countryInfo_of[of b cfg] by blast
  then have "1 \<le> length (nodes b)" by (cases "nodes b") simp_all
  moreover have "bucket_size cfg st c = length (nodes b)"
    using bucket_size_of_bucket[OF b(1), of st] b(2) by simp
  ultimately show "1 \<le> bucket_size cfg st c" by simp
qed

lemma surfaced_filter:
  "map country (filter (\<lambda>item. th \<le> int (length (nodes item))) (countryInfo_of cfg)) =
   filter (\<lambda>c. th \<le> int (bucket_size cfg st c)) (map country (countryInfo_of cfg))"
proof -
  have "filter (\<lambda>item. th \<le> int (length (nodes item))) (countryInfo_of cfg) =
        filter (\<lambda>item. th \<le> int (bucket_size cfg st (country item))) (countryInfo_of cfg)"
    by (rule filter_cong) (simp_all add: bucket_size_of_bucket)
  then show ?thesis by (simp add: filter_map comp_def)
qed

lemma set_surfaced_countries:
  "(c \<in> set (surfaced_countries (countryInfo_of cfg) th)) =
     (1 \<le> bucket_size cfg st c \<and> th \<le> int (bucket_size cfg st c))"
proof -
  have "set (surfaced_countries (countryInfo_of cfg) th) =
        set (filter (\<lambda>c. th \<le> int (bucket_size cfg st c)) (map country (countryInfo_of cfg)))"
    unfolding surfaced_filter[symmetric] by (simp add: surfaced_countries_def)
  then show ?thesis
    using bucket_size_pos_iff[of cfg st c] by auto
qed

lemma map_country_first_seen:
  "map country (countryInfo_of cfg) = first_seen (List.map_filter classify (node_names cfg))"
  by (simp add: map_country_countryInfo_of map_fst_collect first_seen_def)

lemma emitted_countries_eq:
  "emitted_countries fl cfg st = surfaced_countries (countryInfo_of cfg) (countryThreshold fl)"
  by (simp add: emitted_countries_def emitted_country_groups_eq getCountryGroupNames_surfaced
        comp_def)

section \<open>The threshold\<close>

lemma country_group_emitted_iff:
  assumes "c \<in> set (map fst countriesMeta)"
  shows "(c @ NODE_SUFFIX \<in> set (map proxy_group.name (final_groups fl cfg st))) =
         (1 \<le> bucket_size cfg st c \<and> countryThreshold fl \<le> int (bucket_size cfg st c))"
proof -
  have cg: "c @ NODE_SUFFIX \<in> set country_group_names"
    using assms by (rule key_group_name_in)
  have f: "c @ NODE_SUFFIX \<notin> set (functional_group_names l lc)" for l lc
    using cg functional_subset_reserved[of l lc] reserved_notin_country by blast
  have g: "c @ NODE_SUFFIX \<noteq> js ''GLOBAL''"
    using cg reserved_notin_country[of "js ''GLOBAL''"] by (auto simp: reserved_names_def)
  have "(c @ NODE_SUFFIX \<in> set (map proxy_group.name (final_groups fl cfg st))) =
        (c \<in> set (surfaced_countries (countryInfo_of cfg) (countryThreshold fl)))"
    using f g by (auto simp: final_group_names getCountryGroupNames_surfaced)
  then show ?thesis
    using set_surfaced_countries[of c cfg "countryThreshold fl" st] by simp
qed

lemma keys_samples:
  "[0x9999, 0x6E2F] \<in> set (map fst countriesMeta)"
  "[0x7F8E, 0x56FD] \<in> set (map fst countriesMeta)"
  unfolding keys_eval by simp_all

lemma bucket_size_samples:
  "bucket_size (nodes_config [js ''HK-1'']) fresh_state [0x7F8E, 0x56FD] = 0"
  "bucket_size (nodes_config [js ''HK-1'']) fresh_state [0x9999, 0x6E2F] = 1"
  "bucket_size (nodes_config [js ''HK-1'', js ''HK-2'', js ''HK-3'', js ''US-1''])
     fresh_state [0x9999, 0x6E2F] = 3"
  "bucket_size (nodes_config [js ''HK-1'', js ''HK-2'', js ''HK-3'', js ''US-1''])
     fresh_state [0x7F8E, 0x56FD] = 1"
  "bucket_size (nodes_config [js ''HK-1'', js ''HK 0.5x'']) fresh_state [0x9999, 0x6E2F] = 1"
  by (simp_all add: bucket_size_eq classify_samples)

text \<open>
  C7 (amended). For a country of \<open>countriesMeta\<close>, its group is in the final sequence
  if and only if at least one node was classified into the country and the size of its
  bucket is at least \<open>countryThreshold\<close>.
\<close>

theorem threshold_property:
  assumes "c \<in> set (map fst countriesMeta)"
  shows "(c @ NODE_SUFFIX \<in> set (map proxy_group.name (final_groups fl cfg st))) =
         (1 \<le> bucket_size cfg st c \<and> countryThreshold fl \<le> int (bucket_size cfg st c))"
  using assms by (rule country_group_emitted_iff)

theorem threshold_property_witness:
  "[0x9999, 0x6E2F] @ NODE_SUFFIX
     \<in> set (map proxy_group.name
              (final_groups (default_flags\<lparr>countryThreshold := 2\<rparr>)
                 (nodes_config [js ''HK-1'', js ''HK-2'', js ''HK-3'', js ''US-1'']) fresh_state))
   \<and> [0x7F8E, 0x56FD] @ NODE_SUFFIX
     \<notin> set (map proxy_group.name
              (final_groups (default_flags\<lparr>countryThreshold := 2\<rparr>)
                 (nodes_config [js ''HK-1'', js ''HK-2'', js ''HK-3'', js ''US-1'']) fresh_state))
   \<and> bucket_size (nodes_config [js ''HK-1'', js ''HK-2'', js ''HK-3'', js ''US-1''])
        fresh_state [0x9999, 0x6E2F] = 3
   \<and> bucket_size (nodes_config [js ''HK-1'', js ''HK-2'', js ''HK-3'', js ''US-1''])
        fresh_state [0x7F8E, 0x56FD] = 1"
  using threshold_property[OF keys_samples(1), of "default_flags\<lparr>countryThreshold := 2\<rparr>"
          "nodes_config [js ''HK-1'', js ''HK-2'', js ''HK-3'', js ''US-1'']" fresh_state]
        threshold_property[OF keys_samples(2), of "default_flags\<lparr>countryThreshold := 2\<rparr>"
          "nodes_config [js ''HK-1'', js ''HK-2'', js ''HK-3'', js ''US-1'']" fresh_state]
  by (simp add: bucket_size_samples del: set_map)

text \<open>
  The claim as stated fails. With the default threshold 0 and the single node \<open>HK-1\<close>,
  the bucket of the United States country has size 0, which is at least the threshold,
  and yet no group of that country is emitted.
\<close>

theorem threshold_zero_counterexample:
  "\<not> (([0x7F8E, 0x56FD] @ NODE_SUFFIX
          \<in> set (map proxy_group.name
                   (final_groups default_flags (nodes_config [js ''HK-1'']) fresh_state)))
        = (countryThreshold default_flags
             \<le> int (bucket_size (nodes_config [js ''HK-1'']) fresh_state [0x7F8E, 0x56FD])))"
  using country_group_emitted_iff[OF keys_samples(2), of default_flags
          "nodes_config [js ''HK-1'']" fresh_state]
  by (simp add: bucket_size_samples default_flags_def del: set_map)

section \<open>The order of the country groups\<close>

text \<open>
  C3 (amended). The countries of the emitted country groups are in ascending order of
  weight, a country without weight counting as infinitely heavy; and the emitted countries
  of one weight (all those without weight among them) stand in the order in which the
  input node list first presents a node of each, restricted to the countries that reach
  the threshold.
\<close>

theorem weight_ordering:
  "sorted (map weight_of (emitted_countries fl cfg st))
   \<and> (\<forall>w. filter (\<lambda>c. weight_of c = w) (emitted_countries fl cfg st) =
           filter (\<lambda>c. weight_of c = w \<and> countryThreshold fl \<le> int (bucket_size cfg st c))
             (first_seen (List.map_filter classify (node_names cfg))))"
proof -
  let ?key = "\<lambda>item. weight_of (country item)"
  let ?kept = "filter (\<lambda>item. countryThreshold fl \<le> int (length (nodes item))) (countryInfo_of cfg)"
  have e: "emitted_countries fl cfg st = map country (sort_key ?key ?kept)"
    by (simp add: emitted_countries_eq surfaced_countries_def)
  have "map weight_of (map country (sort_key ?key ?kept)) = map ?key (sort_key ?key ?kept)"
    by (simp add: comp_def)
  then have s: "sorted (map weight_of (emitted_countries fl cfg st))"
    unfolding e by (simp only: sorted_sort_key)
  have t: "filter (\<lambda>c. weight_of c = w) (emitted_countries fl cfg st) =
           filter (\<lambda>c. weight_of c = w \<and> countryThreshold fl \<le> int (bucket_size cfg st c))
             (first_seen (List.map_filter classify (node_names cfg)))" for w
  proof -
    have "filter (\<lambda>c. weight_of c = w) (map country (sort_key ?key ?kept)) =
          map country (filter (\<lambda>item. ?key item = w) (sort_key ?key ?kept))"
      by (simp add: filter_map comp_def)
    also have "\<dots> = map country (filter (\<lambda>item. ?key item = w) ?kept)"
      by (simp only: sort_key_stable)
    also have "\<dots> = filter (\<lambda>c. weight_of c = w) (map country ?kept)"
      by (simp add: filter_map comp_def)
    also have "\<dots> = filter (\<lambda>c. weight_of c = w)
                        (filter (\<lambda>c. countryThreshold fl \<le> int (bucket_size cfg st c))
                           (map country (countryInfo_of cfg)))"
      by (simp only: surfaced_filter[of "countryThreshold fl" cfg st])
    finally show ?thesis
      by (simp add: e map_country_first_seen conj_commute)
  qed
  show ?thesis using s t by blast
qed

text \<open>
  The claim as stated fails. Korea and Macau both have no weight, and Macau is declared
  first. With the nodes \<open>KR\<close>, \<open>MO\<close> in that order the Korea group is emitted
  before the Macau group; with the nodes in the other order, after it.
\<close>

theorem declaration_order_counterexample:
  "emitted_country_groups default_flags (nodes_config [js ''KR'', js ''MO'']) fresh_state =
     [[0x97E9, 0x56FD] @ NODE_SUFFIX, [0x6FB3, 0x95E8] @ NODE_SUFFIX]
   \<and> emitted_country_groups default_flags (nodes_config [js ''MO'', js ''KR'']) fresh_state =
     [[0x6FB3, 0x95E8] @ NODE_SUFFIX, [0x97E9, 0x56FD] @ NODE_SUFFIX]
   \<and> weight_of [0x97E9, 0x56FD] = weight_of [0x6FB3, 0x95E8]
   \<and> map fst countriesMeta ! 1 = [0x6FB3, 0x95E8]
   \<and> map fst countriesMeta ! 5 = [0x97E9, 0x56FD]"
  by (simp add: emitted_country_groups_eq getCountryGroupNames_def countryInfo_samples
        weight_samples default_flags_def keys_eval Let_def)

section \<open>Candidate lists\<close>

lemma in_buildList:
  "(x \<in> set (buildList els)) = (x \<noteq> [] \<and> Some x \<in> set (concat (map flat els)))"
proof -
  have "(x \<in> set (List.map_filter truthy ys)) = (x \<noteq> [] \<and> Some x \<in> set ys)" for ys
  proof (induction ys)
    case Nil
    then show ?case by simp
  next
    case (Cons y ys)
    then show ?case by (cases y) (auto simp: truthy_def)
  qed
  then show ?thesis
    by (simp add: buildList_def)
qed

lemma in_flat_guarded [simp]: "(Some x \<in> set (flat (guarded c v))) = (c \<and> x = v)"
  by (simp add: guarded_def)

lemma in_base_lists:
  "(x \<in> set (defaultProxies (buildBaseLists fl l lcn names))) =
     (x \<noteq> [] \<and> (x = SELECT \<or> x \<in> set names
        \<or> ((0 < length lcn \<or> regexFilter fl) \<and> x = LOW_COST) \<or> x = MANUAL \<or> x = DIRECT))"
  "(x \<in> set (defaultProxiesDirect (buildBaseLists fl l lcn names))) =
     (x \<noteq> [] \<and> (x = DIRECT \<or> x \<in> set names
        \<or> ((0 < length lcn \<or> regexFilter fl) \<and> x = LOW_COST) \<or> x = SELECT \<or> x = MANUAL))"
  "(x \<in> set (defaultSelector (buildBaseLists fl l lcn names))) =
     (x \<noteq> [] \<and> (x = FALLBACK \<or> (l \<and> x = LANDING) \<or> x \<in> set names
        \<or> ((0 < length lcn \<or> regexFilter fl) \<and> x = LOW_COST) \<or> x = MANUAL
        \<or> x = js ''DIRECT''))"
  "(x \<in> set (defaultFallback (buildBaseLists fl l lcn names))) =
     (x \<noteq> [] \<and> ((l \<and> x = LANDING) \<or> x \<in> set names
        \<or> ((0 < length lcn \<or> regexFilter fl) \<and> x = LOW_COST) \<or> x = MANUAL
        \<or> x = js ''DIRECT''))"
  by (simp_all add: buildBaseLists_def in_buildList Let_def image_iff) blast+

lemma low_cost_not_fixed:
  "LOW_COST \<noteq> []" "LOW_COST \<noteq> SELECT" "LOW_COST \<noteq> MANUAL" "LOW_COST \<noteq> DIRECT"
  "LOW_COST \<noteq> FALLBACK" "LOW_COST \<noteq> LANDING" "LOW_COST \<noteq> js ''DIRECT''"
  "LOW_COST \<noteq> js ''GLOBAL''" "LOW_COST \<noteq> FRONT" "LOW_COST \<notin> set service_group_names"
  by (simp_all add: service_group_names_def proxied_service_names_def name_defs)

lemma names_not_reserved:
  "n \<in> set reserved_names \<Longrightarrow> n \<notin> set (getCountryGroupNames (countryInfo_of cfg) th)"
  using surfaced_are_keys[of cfg th] key_group_name_in reserved_notin_country[of n]
  by (auto simp: getCountryGroupNames_surfaced)

lemma low_cost_reserved: "LOW_COST \<in> set reserved_names"
  by (simp add: reserved_names_def)

section \<open>The low-cost entry\<close>

text \<open>
  C8. With the candidate lists built as \<open>main\<close> builds them, the low-cost name is in
  each of the four lists, and a group of that name is in the final sequence, if and only
  if some node name matches the low-cost pattern or \<open>regexFilter\<close> is set.
\<close>

theorem low_cost_presence:
  "(let lowCostNodes = fst (parseLowCost cfg st);
        countryGroupNames =
          getCountryGroupNames (fst (parseCountries cfg st)) (countryThreshold fl);
        base = buildBaseLists fl (landing fl) lowCostNodes countryGroupNames;
        present = ((\<exists>nm \<in> set (node_names cfg). matches LOW_COST_REGEX nm) \<or> regexFilter fl)
    in (LOW_COST \<in> set (defaultSelector base)) = present
     \<and> (LOW_COST \<in> set (defaultProxies base)) = present
     \<and> (LOW_COST \<in> set (defaultProxiesDirect base)) = present
     \<and> (LOW_COST \<in> set (defaultFallback base)) = present
     \<and> (LOW_COST \<in> set (map proxy_group.name (final_groups fl cfg st))) = present)"
proof -
  let ?lcn = "filter (matches LOW_COST_REGEX) (node_names cfg)"
  let ?names = "getCountryGroupNames (countryInfo_of cfg) (countryThreshold fl)"
  let ?base = "buildBaseLists fl (landing fl) ?lcn ?names"
  let ?present = "(\<exists>nm \<in> set (node_names cfg). matches LOW_COST_REGEX nm) \<or> regexFilter fl"
  have p: "(0 < length ?lcn \<or> regexFilter fl) = ?present"
    by (auto simp: filter_empty_conv)
  have n: "LOW_COST \<notin> set ?names"
    using low_cost_reserved by (rule names_not_reserved)
  have 1: "(LOW_COST \<in> set (defaultSelector ?base)) = ?present"
    unfolding p[symmetric] using n low_cost_not_fixed by (simp add: in_base_lists)
  have 2: "(LOW_COST \<in> set (defaultProxies ?base)) = ?present"
    unfolding p[symmetric] using n low_cost_not_fixed by (simp add: in_base_lists)
  have 3: "(LOW_COST \<in> set (defaultProxiesDirect ?base)) = ?present"
    unfolding p[symmetric] using n low_cost_not_fixed by (simp add: in_base_lists)
  have 4: "(LOW_COST \<in> set (defaultFallback ?base)) = ?present"
    unfolding p[symmetric] using n low_cost_not_fixed by (simp add: in_base_lists)
  have g: "(LOW_COST \<in> set (functional_group_names l c)) = c" for l c
    using low_cost_not_fixed by (simp add: functional_group_names_def)
  have 5: "(LOW_COST \<in> set (map proxy_group.name (final_groups fl cfg st))) = ?present"
    unfolding p[symmetric] using n low_cost_not_fixed(8)
    by (simp add: final_group_names g del: set_map)
  show ?thesis
    unfolding Let_def parseLowCost_pure parseCountries_pure fst_conv
    using 1 2 3 4 5 by blast
qed

section \<open>Group types\<close>

lemma buildProxyGroups_types:
  "map (\<lambda>g. (proxy_group.name g, type g))
     (buildProxyGroups fl l cs cpg lcn lnn dp dpd ds df) =
   functional_group_types l (length lcn > 0 \<or> regexFilter fl)
   @ map (\<lambda>g. (proxy_group.name g, type g)) cpg"
  by (simp add: buildProxyGroups_def functional_group_types_def service_group_names_def proxied_service_names_def
        FRONT_def List.map_filter_simps select_group_def group_def Let_def
        map_filter_id_append map_filter_id_Some del: append_Cons)

lemma functional_types_props:
  assumes "(n, t) \<in> set (functional_group_types l lc)"
  shows "n \<in> set reserved_names" and "n = LOW_COST \<Longrightarrow> t = url_test"
proof -
  show "n \<in> set reserved_names"
    using assms by (auto simp: functional_group_types_def reserved_names_def split: if_splits)
  show "t = url_test" if "n = LOW_COST"
    using assms that low_cost_not_fixed
    by (auto simp: functional_group_types_def split: if_splits)
qed

lemma type_country_group [simp]:
  "type (country_group l lb rf info c meta) = (if lb then load_balance else url_test)"
  by (simp add: country_group_def group_def Let_def)

section \<open>The type of the low-cost group\<close>

text \<open>
  C10. In the final sequence a group named as the low-cost group has type \<open>url-test\<close>,
  whatever \<open>loadBalance\<close> is; a group named as a country group has type
  \<open>load-balance\<close> when \<open>loadBalance\<close> is set and \<open>url-test\<close> otherwise.
\<close>

theorem low_cost_type:
  "\<forall>g \<in> set (final_groups fl cfg st).
     (proxy_group.name g = LOW_COST \<longrightarrow> type g = url_test)
     \<and> (proxy_group.name g \<in> set country_group_names \<longrightarrow>
          type g = (if loadBalance fl then load_balance else url_test))"
proof
  fix g assume g: "g \<in> set (final_groups fl cfg st)"
  let ?cs = "surfaced_countries (countryInfo_of cfg) (countryThreshold fl)"
  let ?cpg = "buildCountryProxyGroups ?cs (landing fl) (loadBalance fl) (regexFilter fl)
                (countryInfo_of cfg)"
  obtain pg where pg: "final_groups fl cfg st =
      pg @ [(group (js ''GLOBAL'') select)
              \<lparr>include_all := Some True,
               proxy_group.proxies := Some (map proxy_group.name pg)\<rparr>]"
    and types: "map (\<lambda>g. (proxy_group.name g, type g)) pg =
      functional_group_types (landing fl)
        (length (filter (matches LOW_COST_REGEX) (node_names cfg)) > 0 \<or> regexFilter fl)
      @ map (\<lambda>g. (proxy_group.name g, type g)) ?cpg"
    by (simp add: final_groups_def main_pure Let_def buildProxyGroups_types
          stripNodeSuffix_names)
  have cpg: "?cpg = map (\<lambda>c. country_group (landing fl) (loadBalance fl) (regexFilter fl)
                          (countryInfo_of cfg) c (the (map_of countriesMeta c))) ?cs"
    using surfaced_are_keys by (rule buildCountryProxyGroups_keys)
  consider (global) "g = (group (js ''GLOBAL'') select)
              \<lparr>include_all := Some True,
               proxy_group.proxies := Some (map proxy_group.name pg)\<rparr>"
    | (functional) "(proxy_group.name g, type g) \<in> set (functional_group_types (landing fl)
        (length (filter (matches LOW_COST_REGEX) (node_names cfg)) > 0 \<or> regexFilter fl))"
    | (country) "(proxy_group.name g, type g)
                   \<in> set (map (\<lambda>g. (proxy_group.name g, type g)) ?cpg)"
  proof -
    from g pg have "g \<in> set pg \<or> g = (group (js ''GLOBAL'') select)
              \<lparr>include_all := Some True,
               proxy_group.proxies := Some (map proxy_group.name pg)\<rparr>" by auto
    moreover have "(proxy_group.name g, type g) \<in> set (map (\<lambda>g. (proxy_group.name g, type g)) pg)"
      if "g \<in> set pg" using that by force
    ultimately show ?thesis
      using that unfolding types by (auto simp del: set_map)
  qed
  then show "(proxy_group.name g = LOW_COST \<longrightarrow> type g = url_test)
     \<and> (proxy_group.name g \<in> set country_group_names \<longrightarrow>
          type g = (if loadBalance fl then load_balance else url_test))"
  proof cases
    case global
    have "js ''GLOBAL'' \<notin> set country_group_names"
      by (rule reserved_notin_country) (simp add: reserved_names_def)
    with global low_cost_not_fixed(8) show ?thesis
      by (auto simp: group_def)
  next
    case functional
    from functional_types_props[OF functional] reserved_notin_country
    show ?thesis by blast
  next
    case country
    then obtain c where c: "c \<in> set ?cs"
      "proxy_group.name g = c @ NODE_SUFFIX"
      "type g = (if loadBalance fl then load_balance else url_test)"
      unfolding cpg by auto
    have "c @ NODE_SUFFIX \<in> set country_group_names"
      using c(1) surfaced_are_keys key_group_name_in by blast
    then have "c @ NODE_SUFFIX \<noteq> LOW_COST"
      using reserved_notin_country[OF low_cost_reserved] by auto
    with c(2,3) show ?thesis by simp
  qed
qed

theorem low_cost_type_witness:
  "(\<exists>g \<in> set (final_groups (default_flags\<lparr>loadBalance := True\<rparr>)
                  (nodes_config [js ''HK-1'', js ''HK 0.5x'']) fresh_state).
      proxy_group.name g = LOW_COST \<and> type g = url_test)
   \<and> (\<exists>g \<in> set (final_groups (default_flags\<lparr>loadBalance := True\<rparr>)
                  (nodes_config [js ''HK-1'', js ''HK 0.5x'']) fresh_state).
      proxy_group.name g = [0x9999, 0x6E2F] @ NODE_SUFFIX \<and> type g = load_balance)"
proof -
  let ?fl = "default_flags\<lparr>loadBalance := True\<rparr>"
  let ?cfg = "nodes_config [js ''HK-1'', js ''HK 0.5x'']"
  have lb: "loadBalance ?fl" by simp
  have "LOW_COST \<in> set (map proxy_group.name (final_groups ?fl ?cfg fresh_state))"
    by (simp add: final_group_names functional_group_names_def matches_samples
          del: set_map)
  then obtain g1 where g1: "g1 \<in> set (final_groups ?fl ?cfg fresh_state)"
    "proxy_group.name g1 = LOW_COST" by auto
  have "[0x9999, 0x6E2F] @ NODE_SUFFIX
          \<in> set (map proxy_group.name (final_groups ?fl ?cfg fresh_state))"
    using country_group_emitted_iff[OF keys_samples(1), of ?fl ?cfg fresh_state]
    by (simp add: bucket_size_samples default_flags_def del: set_map)
  then obtain g2 where g2: "g2 \<in> set (final_groups ?fl ?cfg fresh_state)"
    "proxy_group.name g2 = [0x9999, 0x6E2F] @ NODE_SUFFIX" by auto
  have cg: "[0x9999, 0x6E2F] @ NODE_SUFFIX \<in> set country_group_names"
    using keys_samples(1) by (rule key_group_name_in)
  from low_cost_type[of ?fl ?cfg fresh_state, rule_format, OF g1(1)] g1
  have t1: "type g1 = url_test" by simp
  from low_cost_type[of ?fl ?cfg fresh_state, rule_format, OF g2(1)] g2 cg lb
  have t2: "type g2 = load_balance" by simp
  from g1 g2 t1 t2 show ?thesis by blast
qed

section \<open>Self-reference\<close>

lemma map_filter_id_Cons_Some:
  "List.map_filter id (Some g # xs) = g # List.map_filter id xs"
  by simp

lemma map_filter_id_Cons_if:
  "List.map_filter id ((if c then Some g else None) # xs) =
     (if c then [g] else []) @ List.map_filter id xs"
  by simp

lemma list_all_if_singleton:
  "list_all P (if c then [g] else []) = (c \<longrightarrow> P g)"
  by simp

lemma list_all_if_append:
  "list_all P ((if c then [g] else []) @ ys) = ((c \<longrightarrow> P g) \<and> list_all P ys)"
  by simp

lemma self_free_if:
  "self_free nms (if c then a else b) = ((c \<longrightarrow> self_free nms a) \<and> (\<not> c \<longrightarrow> self_free nms b))"
  by simp

lemma mem_set_if:
  "(x \<in> set (if c then a else b)) = ((c \<longrightarrow> x \<in> set a) \<and> (\<not> c \<longrightarrow> x \<in> set b))"
  by simp

lemma self_free_select_group:
  "self_free nms (select_group N ps) = (N \<in> set ps \<longrightarrow> N \<in> set nms)"
  by (simp add: self_free_def select_group_def group_def)

lemma self_free_group_updates:
  "self_free nms ((group N t)\<lparr>include_all := a\<rparr>) = True"
  "self_free nms ((group N t)\<lparr>include_all := a, filter_opt := f\<rparr>) = True"
  "self_free nms ((group N t)\<lparr>url := u, include_all := a, filter_opt := f\<rparr>) = True"
  "self_free nms ((group N t)\<lparr>proxy_group.proxies := Some ps\<rparr>) = (N \<in> set ps \<longrightarrow> N \<in> set nms)"
  "self_free nms ((group N t)\<lparr>url := u, proxy_group.proxies := Some ps\<rparr>) =
     (N \<in> set ps \<longrightarrow> N \<in> set nms)"
  "self_free nms ((group N t)\<lparr>include_all := a, exclude_filter := e,
                                proxy_group.proxies := Some ps\<rparr>) =
     (N \<in> set ps \<longrightarrow> N \<in> set nms)"
  "self_free nms ((group N t)\<lparr>url := u, proxy_group.proxies := Some ps, interval := iv,
                                tolerance := tol, lazy := lz\<rparr>) =
     (N \<in> set ps \<longrightarrow> N \<in> set nms)"
  by (simp_all add: self_free_def group_def)

lemma service_names_apart:
  "list_all (\<lambda>N. N \<noteq> [] \<and> N \<noteq> SELECT \<and> N \<noteq> MANUAL \<and> N \<noteq> LOW_COST \<and> N \<noteq> FALLBACK
               \<and> N \<noteq> LANDING \<and> N \<noteq> FRONT \<and> N \<noteq> js ''DIRECT'' \<and> N \<noteq> js ''REJECT''
               \<and> N \<noteq> js ''REJECT-DROP'' \<and> N \<noteq> js ''GLOBAL'')
     service_group_names"
  by (simp add: service_group_names_def proxied_service_names_def name_defs)

lemma core_names_apart:
  "SELECT \<noteq> FALLBACK" "SELECT \<noteq> LANDING" "SELECT \<noteq> LOW_COST" "SELECT \<noteq> MANUAL"
  "SELECT \<noteq> js ''DIRECT''" "FRONT \<noteq> FALLBACK" "FRONT \<noteq> LANDING" "FRONT \<noteq> LOW_COST"
  "FRONT \<noteq> MANUAL" "FRONT \<noteq> js ''DIRECT''" "FALLBACK \<noteq> LANDING" "FALLBACK \<noteq> LOW_COST"
  "FALLBACK \<noteq> MANUAL" "FALLBACK \<noteq> js ''DIRECT''" "DIRECT \<noteq> js ''DIRECT''"
  "DIRECT \<noteq> SELECT" "js ''GLOBAL'' \<noteq> SELECT" "js ''GLOBAL'' \<noteq> MANUAL"
  "js ''GLOBAL'' \<noteq> FRONT" "js ''GLOBAL'' \<noteq> LANDING" "js ''GLOBAL'' \<noteq> FALLBACK"
  "js ''GLOBAL'' \<noteq> LOW_COST"
  by (simp_all add: name_defs)

lemma override_lists_apart:
  "js ''Bilibili'' \<notin> set [DIRECT, [0x53F0, 0x6E7E, 0x8282, 0x70B9], [0x9999, 0x6E2F, 0x8282, 0x70B9]]"
  "js ''Bahamut'' \<notin> set [[0x53F0, 0x6E7E, 0x8282, 0x70B9], SELECT, MANUAL, DIRECT]"
  "js ''Truth Social'' \<notin> set [[0x7F8E, 0x56FD, 0x8282, 0x70B9], SELECT, MANUAL]"
  "[0x641C, 0x72D7, 0x8F93, 0x5165, 0x6CD5] \<notin> set [DIRECT, js ''REJECT'']"
  "DIRECT \<notin> set [js ''DIRECT'', SELECT]"
  "[0x5E7F, 0x544A, 0x62E6, 0x622A] \<notin> set [js ''REJECT'', js ''REJECT-DROP'', DIRECT]"
  by (simp_all add: name_defs)

lemma self_free_buildProxyGroups:
  assumes names: "list_all (\<lambda>N. N \<notin> set names) reserved_names"
    and cpg: "list_all (self_free nms) cpg"
    and lnn: "LANDING \<in> set lnn \<longrightarrow> LANDING \<in> set nms"
    and lcn: "LOW_COST \<in> set lcn \<longrightarrow> LOW_COST \<in> set nms"
  shows "list_all (self_free nms)
           (buildProxyGroups fl l cs cpg lcn lnn
              (defaultProxies (buildBaseLists fl l lcn names))
              (defaultProxiesDirect (buildBaseLists fl l lcn names))
              (defaultSelector (buildBaseLists fl l lcn names))
              (defaultFallback (buildBaseLists fl l lcn names)))"
proof -
  let ?base = "buildBaseLists fl l lcn names"
  have res: "N \<notin> set names" if "N \<in> set reserved_names" for N
    using names that by (simp add: list_all_iff)
  have sel: "SELECT \<notin> set (defaultSelector ?base)"
    using res[of SELECT] core_names_apart by (simp add: in_base_lists reserved_names_def)
  have front: "FRONT \<notin> set (defaultSelector ?base)"
    using res[of FRONT] core_names_apart by (simp add: in_base_lists reserved_names_def)
  have fb: "FALLBACK \<notin> set (defaultFallback ?base)"
    using res[of FALLBACK] core_names_apart by (simp add: in_base_lists reserved_names_def)
  have svc: "N \<notin> set (defaultProxies ?base) \<and> N \<notin> set (defaultProxiesDirect ?base)"
    if "N \<in> set service_group_names" "N \<noteq> DIRECT" for N
  proof -
    have "N \<in> set reserved_names" using that(1) by (simp add: reserved_names_def)
    then have "N \<notin> set names" by (rule res)
    moreover have "N \<noteq> SELECT \<and> N \<noteq> MANUAL \<and> N \<noteq> LOW_COST"
      using service_names_apart that(1) by (simp add: list_all_iff)
    ultimately show ?thesis using that(2) by (simp add: in_base_lists)
  qed
  have apart: "list_all (\<lambda>N. N \<notin> set (defaultProxies ?base)
                       \<and> N \<notin> set (defaultProxiesDirect ?base)) proxied_service_names"
  proof -
    have "list_all (\<lambda>N. N \<noteq> DIRECT) proxied_service_names"
      by (simp add: proxied_service_names_def name_defs)
    moreover have "set proxied_service_names \<subseteq> set service_group_names"
      by (auto simp: service_group_names_def)
    ultimately show ?thesis using svc by (auto simp: list_all_iff)
  qed
  have e_front: "self_free nms ((group [0x524D, 0x7F6E, 0x4EE3, 0x7406] select)
                    \<lparr>include_all := Some True, exclude_filter := Some LANDING_PATTERN,
                     proxy_group.proxies :=
                       Some (filter (\<lambda>n. n \<noteq> LANDING \<and> n \<noteq> FALLBACK)
                               (defaultSelector (buildBaseLists fl True lcn names)))\<rparr>)"
                "self_free nms ((group [0x524D, 0x7F6E, 0x4EE3, 0x7406] select)
                    \<lparr>proxy_group.proxies :=
                       Some (filter (\<lambda>n. n \<noteq> LANDING \<and> n \<noteq> FALLBACK)
                               (defaultSelector (buildBaseLists fl True lcn names)))\<rparr>)"
    using res[of FRONT] core_names_apart
    by (simp_all add: self_free_group_updates in_base_lists reserved_names_def FRONT_def)
  have e_landing: "self_free nms ((group LANDING select)\<lparr>proxy_group.proxies := Some lnn\<rparr>)"
    using lnn by (simp add: self_free_group_updates)
  have e_fallback: "self_free nms ((group FALLBACK fallback)
                      \<lparr>url := Some health_check_url,
                       proxy_group.proxies := Some (defaultFallback ?base),
                       interval := Some 180, tolerance := Some 20, lazy := Some False\<rparr>)"
    using fb by (simp add: self_free_group_updates)
  have e_sel: "self_free nms (select_group SELECT (defaultSelector ?base))"
    using sel by (simp add: self_free_select_group)
  have e_svc: "list_all (\<lambda>N. self_free nms (select_group N (defaultProxies ?base)))
                 proxied_service_names"
    using apart by (simp add: list_all_iff self_free_select_group)
  have e_bili: "self_free nms (select_group (js ''Bilibili'')
                  (if c then [DIRECT, [0x53F0, 0x6E7E, 0x8282, 0x70B9], [0x9999, 0x6E2F, 0x8282, 0x70B9]]
                   else defaultProxiesDirect ?base))" for c
    using apart[unfolded proxied_service_names_def] override_lists_apart(1)
    by (cases c) (simp_all add: self_free_select_group)
  have e_baha: "self_free nms (select_group (js ''Bahamut'')
                  (if c then [[0x53F0, 0x6E7E, 0x8282, 0x70B9], SELECT, MANUAL, DIRECT]
                   else defaultProxies ?base))" for c
    using apart[unfolded proxied_service_names_def] override_lists_apart(2)
    by (cases c) (simp_all add: self_free_select_group)
  have e_truth: "self_free nms (select_group (js ''Truth Social'')
                  (if c then [[0x7F8E, 0x56FD, 0x8282, 0x70B9], SELECT, MANUAL]
                   else defaultProxies ?base))" for c
    using apart[unfolded proxied_service_names_def] override_lists_apart(3)
    by (cases c) (simp_all add: self_free_select_group)
  have e_fixed:
    "self_free nms (select_group [0x641C, 0x72D7, 0x8F93, 0x5165, 0x6CD5] [DIRECT, js ''REJECT''])"
    "self_free nms (select_group DIRECT [js ''DIRECT'', SELECT])"
    "self_free nms (select_group [0x5E7F, 0x544A, 0x62E6, 0x622A]
                      [js ''REJECT'', js ''REJECT-DROP'', DIRECT])"
    using override_lists_apart(4,5,6) by (simp_all add: self_free_select_group)
  have e_low: "self_free nms ((group LOW_COST url_test)
                  \<lparr>url := Some health_check_url, proxy_group.proxies := Some lcn\<rparr>)"
    using lcn by (simp add: self_free_group_updates)
  show ?thesis
    using e_sel e_front e_landing e_fallback e_bili e_baha e_truth e_fixed e_low cpg
      e_svc[unfolded proxied_service_names_def]
    by (simp add: buildProxyGroups_def Let_def map_filter_id_append map_filter_id_Some
          map_filter_id_Cons_Some map_filter_id_Cons_if list_all_if_append self_free_if
          self_free_group_updates(1,2,3) list_all_if_singleton
          del: List.map_filter_simps(2) append_Cons split del: if_split)
qed

lemma nodesByCountry_subset:
  assumes "nodesByCountry (countryInfo_of cfg) c = Some ns"
  shows "set ns \<subseteq> set (node_names cfg)"
proof -
  from assms
  have "(c, ns) \<in> set (rev (map (\<lambda>item. (country item, nodes item)) (countryInfo_of cfg)))"
    unfolding nodesByCountry_def by (rule map_of_SomeD)
  then have "(c, ns) \<in> (\<lambda>item. (country item, nodes item)) ` set (countryInfo_of cfg)"
    by simp
  then obtain b where b: "b \<in> set (countryInfo_of cfg)" "nodes b = ns"
    by (elim imageE) simp
  have "nodes b = filter (\<lambda>nm. classify nm = Some (country b)) (node_names cfg)"
    using b(1) in_countryInfo_of[of b cfg] by blast
  then have "set (nodes b) \<subseteq> set (node_names cfg)"
    by (metis filter_is_subset)
  with b(2) show ?thesis by simp
qed

lemma self_free_country_group:
  "self_free (node_names cfg) (country_group l lb rf (countryInfo_of cfg) c meta)"
proof (cases "nodesByCountry (countryInfo_of cfg) c")
  case None
  then show ?thesis
    by (simp add: self_free_def country_group_def group_def Let_def)
next
  case (Some ns)
  with nodesByCountry_subset[OF Some] show ?thesis
    by (auto simp: self_free_def country_group_def group_def Let_def)
qed

lemma self_free_country_groups:
  "list_all (self_free (node_names cfg))
     (buildCountryProxyGroups cs l lb rf (countryInfo_of cfg))"
  by (induction cs)
     (simp_all add: buildCountryProxyGroups_def self_free_country_group split: option.splits)

lemma global_not_functional: "js ''GLOBAL'' \<notin> set (functional_group_names l lc)"
  using core_names_apart service_names_apart
  by (auto simp: functional_group_names_def list_all_iff)

lemma self_free_final_general:
  assumes cpg: "list_all (self_free nms)
                  (buildCountryProxyGroups
                     (stripNodeSuffix (getCountryGroupNames (countryInfo_of cfg) (countryThreshold fl)))
                     (landing fl) (loadBalance fl) (regexFilter fl) (countryInfo_of cfg))"
    and lnn: "LANDING \<in> set (node_names cfg) \<longrightarrow> LANDING \<in> set nms"
    and lcn: "LOW_COST \<in> set (node_names cfg) \<longrightarrow> LOW_COST \<in> set nms"
  shows "list_all (self_free nms) (final_groups fl cfg st)"
proof -
  let ?nms = "node_names cfg"
  let ?lcn = "filter (matches LOW_COST_REGEX) ?nms"
  let ?lnn = "if landing fl then filter (matches LANDING_REGEX) ?nms else []"
  let ?names = "getCountryGroupNames (countryInfo_of cfg) (countryThreshold fl)"
  let ?cs = "stripNodeSuffix ?names"
  let ?cpg = "buildCountryProxyGroups ?cs (landing fl) (loadBalance fl) (regexFilter fl)
                (countryInfo_of cfg)"
  let ?base = "buildBaseLists fl (landing fl) ?lcn ?names"
  let ?pg = "buildProxyGroups fl (landing fl) ?cs ?cpg ?lcn ?lnn (defaultProxies ?base)
               (defaultProxiesDirect ?base) (defaultSelector ?base) (defaultFallback ?base)"
  have fin: "final_groups fl cfg st =
               ?pg @ [(group (js ''GLOBAL'') select)
                        \<lparr>include_all := Some True,
                         proxy_group.proxies := Some (map proxy_group.name ?pg)\<rparr>]"
    by (simp add: final_groups_def main_pure Let_def)
  have names: "list_all (\<lambda>N. N \<notin> set ?names) reserved_names"
    using names_not_reserved by (simp add: list_all_iff)
  have lnn': "LANDING \<in> set ?lnn \<longrightarrow> LANDING \<in> set nms"
    using lnn by simp
  have lcn': "LOW_COST \<in> set ?lcn \<longrightarrow> LOW_COST \<in> set nms"
    using lcn by simp
  have pg: "list_all (self_free nms) ?pg"
    by (rule self_free_buildProxyGroups[OF names cpg lnn' lcn'])
  have "js ''GLOBAL'' \<notin> set ?names"
    by (rule names_not_reserved) (simp add: reserved_names_def)
  moreover have "map proxy_group.name ?pg =
      functional_group_names (landing fl) (length ?lcn > 0 \<or> regexFilter fl) @ ?names"
    using final_group_names[of fl cfg st] unfolding fin by simp
  ultimately have "js ''GLOBAL'' \<notin> set (map proxy_group.name ?pg)"
    using global_not_functional by (simp del: set_map)
  then have "self_free nms ((group (js ''GLOBAL'') select)
                        \<lparr>include_all := Some True,
                         proxy_group.proxies := Some (map proxy_group.name ?pg)\<rparr>)"
    by (simp add: self_free_def group_def del: set_map)
  with pg show ?thesis unfolding fin by simp
qed

lemma self_free_final: "list_all (self_free (node_names cfg)) (final_groups fl cfg st)"
  by (rule self_free_final_general[OF self_free_country_groups]) simp_all

lemma self_free_country_groups_names:
  "list_all (self_free node_list_group_names) (buildCountryProxyGroups cs l lb rf info)"
proof (induction cs)
  case Nil
  then show ?case by (simp add: buildCountryProxyGroups_def)
next
  case (Cons c cs)
  have "self_free node_list_group_names (country_group l lb rf info c meta)"
    if "map_of countriesMeta c = Some meta" for meta
  proof -
    from that have "(c, meta) \<in> set countriesMeta" by (rule map_of_SomeD)
    then have "c \<in> set (map fst countriesMeta)" by force
    then have "c @ NODE_SUFFIX \<in> set node_list_group_names"
      using key_group_name_in[of c] by (simp add: node_list_group_names_def)
    then show ?thesis
      by (simp add: self_free_def split: option.splits)
  qed
  with Cons show ?case
    by (simp add: buildCountryProxyGroups_def split: option.splits)
qed

lemma self_free_final_names:
  "list_all (self_free node_list_group_names) (final_groups fl cfg st)"
  by (rule self_free_final_general[OF self_free_country_groups_names])
     (simp_all add: node_list_group_names_def)

lemma fixed_not_node_list:
  "n \<in> set fixed_list_group_names \<Longrightarrow> n \<notin> set node_list_group_names"
proof -
  assume n: "n \<in> set fixed_list_group_names"
  then have "n \<in> set reserved_names"
    by (auto simp: fixed_list_group_names_def reserved_names_def)
  then have "n \<notin> set country_group_names" by (rule reserved_notin_country)
  moreover have "list_all (\<lambda>N. N \<noteq> LANDING \<and> N \<noteq> LOW_COST) fixed_list_group_names"
    by (simp add: fixed_list_group_names_def service_group_names_def proxied_service_names_def
          name_defs)
  then have "n \<noteq> LANDING \<and> n \<noteq> LOW_COST" using n by (simp add: list_all_iff)
  ultimately show ?thesis by (simp add: node_list_group_names_def)
qed

lemma cpg_in_buildProxyGroups:
  "set cpg \<subseteq> set (buildProxyGroups fl l cs cpg lcn lnn dp dpd ds df)"
  by (simp add: buildProxyGroups_def Let_def map_filter_id_append map_filter_id_Some
        del: append_Cons List.map_filter_simps split del: if_split)

lemma country_groups_in_final:
  "set (buildCountryProxyGroups
          (surfaced_countries (countryInfo_of cfg) (countryThreshold fl))
          (landing fl) (loadBalance fl) (regexFilter fl) (countryInfo_of cfg))
   \<subseteq> set (final_groups fl cfg st)"
  unfolding final_groups_unfold set_append
  by (rule le_supI1) (rule cpg_in_buildProxyGroups)

lemma select_group_in_buildProxyGroups:
  "select_group SELECT ds \<in> set (buildProxyGroups fl l cs cpg lcn lnn dp dpd ds df)"
  by (simp add: buildProxyGroups_def Let_def map_filter_id_append map_filter_id_Cons_Some
        del: append_Cons List.map_filter_simps split del: if_split)

lemma select_group_in_final:
  "select_group SELECT
     (defaultSelector
        (buildBaseLists fl (landing fl) (filter (matches LOW_COST_REGEX) (node_names cfg))
           (getCountryGroupNames (countryInfo_of cfg) (countryThreshold fl))))
   \<in> set (final_groups fl cfg st)"
  unfolding final_groups_unfold set_append
  by (rule UnI1) (rule select_group_in_buildProxyGroups)

lemma map_of_hong_kong:
  "\<exists>meta. map_of countriesMeta [0x9999, 0x6E2F] = Some meta"
  by (simp add: countriesMeta_def)

text \<open>
  C4 (amended). In the final sequence, the selector, the manual, front-proxy and fallback
  groups, the service groups and \<open>GLOBAL\<close> never have their own name in their candidate
  list; no group whose name no input node carries has its own name in its candidate list;
  and a group that does have its own name in its candidate list is the landing group, the
  low-cost group or a country group. (So a candidate list holds the group's own name only
  in a group that enumerates node names, and only when a node is named exactly like the
  group.)
\<close>

theorem cycle_freedom:
  "\<forall>g \<in> set (final_groups fl cfg st). \<forall>ps.
     proxy_group.proxies g = Some ps \<longrightarrow>
       (proxy_group.name g \<in> set fixed_list_group_names \<longrightarrow> proxy_group.name g \<notin> set ps)
     \<and> (proxy_group.name g \<notin> set (node_names cfg) \<longrightarrow> proxy_group.name g \<notin> set ps)
     \<and> (proxy_group.name g \<in> set ps \<longrightarrow> proxy_group.name g \<in> set node_list_group_names)"
proof (intro ballI allI impI conjI)
  fix g ps
  assume g: "g \<in> set (final_groups fl cfg st)" and ps: "proxy_group.proxies g = Some ps"
  have nodes: "proxy_group.name g \<in> set ps \<longrightarrow> proxy_group.name g \<in> set (node_names cfg)"
    using self_free_final[of cfg fl st] g ps by (auto simp: list_all_iff self_free_def)
  have kinds: "proxy_group.name g \<in> set ps \<longrightarrow> proxy_group.name g \<in> set node_list_group_names"
    using self_free_final_names[of fl cfg st] g ps by (auto simp: list_all_iff self_free_def)
  show "proxy_group.name g \<notin> set ps" if "proxy_group.name g \<in> set fixed_list_group_names"
    using fixed_not_node_list[OF that] kinds by blast
  show "proxy_group.name g \<notin> set ps" if "proxy_group.name g \<notin> set (node_names cfg)"
    using that nodes by blast
  show "proxy_group.name g \<in> set node_list_group_names" if "proxy_group.name g \<in> set ps"
    using that kinds by blast
qed

theorem cycle_freedom_witness:
  "select_group SELECT
     [FALLBACK, [0x9999, 0x6E2F, 0x8282, 0x70B9], MANUAL, js ''DIRECT'']
     \<in> set (final_groups default_flags (nodes_config [js ''HK-1'']) fresh_state)
   \<and> SELECT \<in> set fixed_list_group_names
   \<and> SELECT \<notin> set (node_names (nodes_config [js ''HK-1'']))
   \<and> SELECT \<notin> set [FALLBACK, [0x9999, 0x6E2F, 0x8282, 0x70B9], MANUAL, js ''DIRECT'']
   \<and> (group [0x9999, 0x6E2F, 0x8282, 0x70B9] url_test)
       \<lparr>proxy_group.proxies := Some [[0x9999, 0x6E2F, 0x8282, 0x70B9]],
        url := Some health_check_url, interval := Some 60, tolerance := Some 20,
        lazy := Some False\<rparr>
     \<in> set (final_groups default_flags (nodes_config [[0x9999, 0x6E2F, 0x8282, 0x70B9]])
              fresh_state)
   \<and> ([0x9999, 0x6E2F, 0x8282, 0x70B9] :: jsstring) \<in> set [[0x9999, 0x6E2F, 0x8282, 0x70B9]]
   \<and> [0x9999, 0x6E2F, 0x8282, 0x70B9] \<in> set node_list_group_names"
proof -
  let ?cfg = "nodes_config [js ''HK-1'']"
  have names: "getCountryGroupNames (countryInfo_of ?cfg) (countryThreshold default_flags) =
                 [[0x9999, 0x6E2F, 0x8282, 0x70B9]]"
    by (simp add: getCountryGroupNames_def countryInfo_samples default_flags_def Let_def
          NODE_SUFFIX_def)
  have lcn: "filter (matches LOW_COST_REGEX) (node_names ?cfg) = []"
    by (simp add: matches_samples)
  have "defaultSelector
          (buildBaseLists default_flags (landing default_flags)
             (filter (matches LOW_COST_REGEX) (node_names ?cfg))
             [[0x9999, 0x6E2F, 0x8282, 0x70B9]]) =
        [FALLBACK, [0x9999, 0x6E2F, 0x8282, 0x70B9], MANUAL, js ''DIRECT'']"
    unfolding lcn
    by (simp add: buildBaseLists_def buildList_def guarded_def truthy_def
          default_flags_def name_defs)
  with select_group_in_final[of default_flags ?cfg fresh_state]
  have mem: "select_group SELECT
               [FALLBACK, [0x9999, 0x6E2F, 0x8282, 0x70B9], MANUAL, js ''DIRECT'']
             \<in> set (final_groups default_flags ?cfg fresh_state)"
    unfolding names by simp
  have p: "proxy_group.proxies
             (select_group SELECT
                [FALLBACK, [0x9999, 0x6E2F, 0x8282, 0x70B9], MANUAL, js ''DIRECT'']) =
           Some [FALLBACK, [0x9999, 0x6E2F, 0x8282, 0x70B9], MANUAL, js ''DIRECT'']"
    and n: "proxy_group.name
             (select_group SELECT
                [FALLBACK, [0x9999, 0x6E2F, 0x8282, 0x70B9], MANUAL, js ''DIRECT'']) = SELECT"
    by (simp_all add: select_group_def group_def)
  have fixed: "SELECT \<in> set fixed_list_group_names"
    by (simp add: fixed_list_group_names_def)
  have nn: "SELECT \<notin> set (node_names ?cfg)"
    by (simp add: name_defs)
  have sel: "SELECT \<notin> set [FALLBACK, [0x9999, 0x6E2F, 0x8282, 0x70B9], MANUAL, js ''DIRECT'']"
    using cycle_freedom[rule_format, OF mem p] fixed nn unfolding n by blast
  let ?cfg' = "nodes_config [[0x9999, 0x6E2F, 0x8282, 0x70B9]]"
  let ?hk = "(group [0x9999, 0x6E2F, 0x8282, 0x70B9] url_test)
               \<lparr>proxy_group.proxies := Some [[0x9999, 0x6E2F, 0x8282, 0x70B9]],
                url := Some health_check_url, interval := Some 60, tolerance := Some 20,
                lazy := Some False\<rparr>"
  obtain meta where meta: "map_of countriesMeta [0x9999, 0x6E2F] = Some meta"
    using map_of_hong_kong by blast
  have s: "surfaced_countries (countryInfo_of ?cfg') (countryThreshold default_flags) =
             [[0x9999, 0x6E2F]]"
    by (simp add: surfaced_countries_def countryInfo_samples default_flags_def)
  have "buildCountryProxyGroups [[0x9999, 0x6E2F]] False False False (countryInfo_of ?cfg') =
          [?hk]"
    by (simp add: buildCountryProxyGroups_def meta country_group_def Let_def
          countryInfo_samples nodesByCountry_def NODE_SUFFIX_def)
  then have mem': "?hk \<in> set (final_groups default_flags ?cfg' fresh_state)"
    using country_groups_in_final[of ?cfg' default_flags fresh_state]
    unfolding s by (simp add: default_flags_def)
  have p': "proxy_group.proxies ?hk = Some [[0x9999, 0x6E2F, 0x8282, 0x70B9]]"
    and n': "proxy_group.name ?hk = [0x9999, 0x6E2F, 0x8282, 0x70B9]"
    by (simp_all add: group_def)
  have own: "([0x9999, 0x6E2F, 0x8282, 0x70B9] :: jsstring) \<in> set [[0x9999, 0x6E2F, 0x8282, 0x70B9]]"
    by simp
  have kind: "[0x9999, 0x6E2F, 0x8282, 0x70B9] \<in> set node_list_group_names"
    using cycle_freedom[rule_format, OF mem' p'] own unfolding n' by blast
  from mem fixed nn sel mem' own kind show ?thesis
    by (intro conjI)
qed

text \<open>
  The claim as stated fails. With the default flags and a single node that is itself
  named like the Hong Kong group, the Hong Kong group is emitted with that node name, its
  own name, as its only candidate.
\<close>

theorem self_reference_counterexample:
  "(group [0x9999, 0x6E2F, 0x8282, 0x70B9] url_test)
     \<lparr>proxy_group.proxies := Some [[0x9999, 0x6E2F, 0x8282, 0x70B9]],
      url := Some health_check_url, interval := Some 60, tolerance := Some 20,
      lazy := Some False\<rparr>
   \<in> set (final_groups default_flags (nodes_config [[0x9999, 0x6E2F, 0x8282, 0x70B9]])
            fresh_state)"
proof -
  let ?cfg = "nodes_config [[0x9999, 0x6E2F, 0x8282, 0x70B9]]"
  obtain meta where meta: "map_of countriesMeta [0x9999, 0x6E2F] = Some meta"
    using map_of_hong_kong by blast
  have s: "surfaced_countries (countryInfo_of ?cfg) (countryThreshold default_flags) =
             [[0x9999, 0x6E2F]]"
    by (simp add: surfaced_countries_def countryInfo_samples default_flags_def)
  have "buildCountryProxyGroups [[0x9999, 0x6E2F]] False False False (countryInfo_of ?cfg) =
          [(group [0x9999, 0x6E2F, 0x8282, 0x70B9] url_test)
             \<lparr>proxy_group.proxies := Some [[0x9999, 0x6E2F, 0x8282, 0x70B9]],
              url := Some health_check_url, interval := Some 60, tolerance := Some 20,
              lazy := Some False\<rparr>]"
    by (simp add: buildCountryProxyGroups_def meta country_group_def Let_def
          countryInfo_samples nodesByCountry_def NODE_SUFFIX_def)
  then show ?thesis
    using country_groups_in_final[of ?cfg default_flags fresh_state]
    unfolding s by (simp add: default_flags_def)
qed

end
